theory Spec2Isabelle
  imports Main "HOL-Library.Word" "HOL-Library.List_Lexorder"
begin

section \<open>Values of the JavaScript runtime\<close>

text \<open>
  The services are JavaScript. An exception is a value of \<open>error\<close>, returned as
  \<open>Inl\<close>; a function that can throw returns \<open>error + 'a\<close>.
\<close>

datatype error =
    TypeError
  | SyntaxError
  | EmptyCertificates
  | MissingCommitment
  | InvalidTreeData
  | RootMismatch
  | KeyNotFound
  | VerifierFailure

type_synonym bytes = "8 word list"

text \<open>\<open>try { body } catch (error) { return handler }\<close>.\<close>

definition try_catch :: "error + 'a \<Rightarrow> (error \<Rightarrow> error + 'a) \<Rightarrow> error + 'a" where
  "try_catch body handler = (case body of Inl e \<Rightarrow> handler e | Inr v \<Rightarrow> Inr v)"

text \<open>Sequencing of steps that can throw: the first exception ends the block.\<close>

definition bind_err :: "error + 'a \<Rightarrow> ('a \<Rightarrow> error + 'b) \<Rightarrow> error + 'b" where
  "bind_err m f = (case m of Inl e \<Rightarrow> Inl e | Inr v \<Rightarrow> f v)"

fun map_err :: "('a \<Rightarrow> error + 'b) \<Rightarrow> 'a list \<Rightarrow> error + 'b list" where
  "map_err f [] = Inr []"
| "map_err f (x # xs) =
     (case f x of
        Inl e \<Rightarrow> Inl e
      | Inr y \<Rightarrow> (case map_err f xs of Inl e \<Rightarrow> Inl e | Inr ys \<Rightarrow> Inr (y # ys)))"

subsection \<open>Hexadecimal and decimal text\<close>

definition hex_digit :: "nat \<Rightarrow> char" where
  "hex_digit n = ''0123456789abcdef'' ! (n mod 16)"

definition hex_val :: "char \<Rightarrow> nat option" where
  "hex_val c =
     (let k = (of_char c :: nat) in
      if 48 \<le> k \<and> k \<le> 57 then Some (k - 48)
      else if 97 \<le> k \<and> k \<le> 102 then Some (k - 87)
      else if 65 \<le> k \<and> k \<le> 70 then Some (k - 55)
      else None)"

text \<open>\<open>buffer.toString('hex')\<close>: two lower-case digits per byte.\<close>

fun to_hex :: "bytes \<Rightarrow> string" where
  "to_hex [] = []"
| "to_hex (b # bs) = hex_digit (unat b div 16) # hex_digit (unat b mod 16) # to_hex bs"

text \<open>
  \<open>Buffer.from(str, 'hex')\<close>: decodes pairs of digits and stops, without an exception,
  at the first pair that is not hexadecimal; a last single character is dropped.
\<close>

fun from_hex :: "string \<Rightarrow> bytes" where
  "from_hex (c # d # cs) =
     (case (hex_val c, hex_val d) of
        (Some h, Some l) \<Rightarrow> of_nat (16 * h + l) # from_hex cs
      | _ \<Rightarrow> [])"
| "from_hex _ = []"

text \<open>\<open>BigInt('0x' + s)\<close>: a SyntaxError when \<open>s\<close> is empty or holds another character.\<close>

fun hex_digits_value :: "nat \<Rightarrow> string \<Rightarrow> nat option" where
  "hex_digits_value acc [] = Some acc"
| "hex_digits_value acc (c # cs) =
     (case hex_val c of None \<Rightarrow> None | Some v \<Rightarrow> hex_digits_value (16 * acc + v) cs)"

definition BigInt_hex :: "string \<Rightarrow> error + nat" where
  "BigInt_hex s =
     (if s = [] then Inl SyntaxError
      else case hex_digits_value 0 s of None \<Rightarrow> Inl SyntaxError | Some n \<Rightarrow> Inr n)"

definition digit_char :: "nat \<Rightarrow> char" where
  "digit_char n = char_of (48 + n mod 10)"

text \<open>\<open>n.toString()\<close> of a non-negative BigInt.\<close>

function to_decimal :: "nat \<Rightarrow> string" where
  "to_decimal n = (if n < 10 then [digit_char n] else to_decimal (n div 10) @ [digit_char n])"
  by pat_completeness auto
termination
  by (relation "measure id") auto

declare to_decimal.simps [simp del]

text \<open>Reading a decimal numeral back, to say what \<open>to_decimal\<close> denotes.\<close>

definition of_decimal :: "string \<Rightarrow> nat" where
  "of_decimal s = foldl (\<lambda>acc c. 10 * acc + ((of_char c :: nat) - 48)) 0 s"

section \<open>Field elements of circuit inputs\<close>

definition BN254_FIELD_MODULUS :: nat where
  "BN254_FIELD_MODULUS =
     21888242871839275222246405745257275088548364400416034343698204186575808495617"

text \<open>
  \<open>crypto.createHash('sha256').update(str).digest()\<close> is a parameter \<open>sha256\<close> of the
  model: a function from the text to its 256-bit digest. \<open>digest_bytes\<close> are the 32 bytes
  of the digest, most significant first, and \<open>digest('hex')\<close> their hexadecimal text.
\<close>

type_synonym sha256_fn = "string \<Rightarrow> 256 word"

definition digest_bytes :: "256 word \<Rightarrow> bytes" where
  "digest_bytes w = map (\<lambda>i. ucast (drop_bit (8 * (31 - i)) w)) [0..<32]"

definition digest_hex :: "256 word \<Rightarrow> string" where
  "digest_hex w = to_hex (digest_bytes w)"

text \<open>
  \<open>CertificateUtils.stringToFieldElement\<close> and \<open>ZKProofService.stringToFieldElement\<close>
  (the two bodies differ only in the name of a local constant).
\<close>

definition stringToFieldElement :: "sha256_fn \<Rightarrow> string \<Rightarrow> error + string" where
  "stringToFieldElement sha256 str =
     (let hash = digest_hex (sha256 str) in
      bind_err (BigInt_hex hash) (\<lambda>big.
        let fieldElement = big mod BN254_FIELD_MODULUS in
        Inr (to_decimal fieldElement)))"

section \<open>Commitments\<close>

text \<open>\<open>array.join(sep)\<close> on an array of texts.\<close>

fun join :: "string \<Rightarrow> string list \<Rightarrow> string" where
  "join sep [] = []"
| "join sep [x] = x"
| "join sep (x # y # xs) = x @ sep @ join sep (y # xs)"

text \<open>
  Grades are JavaScript numbers, and \<open>join\<close> turns each element into text with
  \<open>String(x)\<close>. That conversion is the parameter \<open>toText\<close> of the model and the type
  \<open>'n\<close> of numbers is left open, so that the functions below are defined for every
  number the code can be handed (\<open>88.5\<close>, \<open>1e21\<close>, \<open>NaN\<close>), not only for integers.
\<close>

record 'n student_data =
  sd_studentId :: string
  sd_subjects :: "'n list"

text \<open>
  \<open>CertificateUtils.hashStudentData\<close>. The body has no check and no \<open>throw\<close>; the
  result type has room for an exception so that failing can be stated at all.
\<close>

definition hashStudentData ::
  "sha256_fn \<Rightarrow> ('n \<Rightarrow> string) \<Rightarrow> 'n student_data \<Rightarrow> string \<Rightarrow> error + string" where
  "hashStudentData sha256 toText studentData salt =
     (let dataString =
        join ''|'' ([sd_studentId studentData, salt] @ map toText (sd_subjects studentData))
      in Inr (digest_hex (sha256 dataString)))"

record 'n raw_input =
  ri_studentId :: string
  ri_subjects :: "'n list"
  ri_salt :: string
  ri_minPassingGrade :: 'n
  ri_requireAllPassed :: bool

text \<open>\<open>ZKProofService.calculateCommitment\<close>.\<close>

definition calculateCommitment ::
  "sha256_fn \<Rightarrow> ('n \<Rightarrow> string) \<Rightarrow> 'n raw_input \<Rightarrow> error + string" where
  "calculateCommitment sha256 toText input =
     (let commitmentData =
        join ''|'' ([ri_studentId input, ri_salt input] @ map toText (ri_subjects input))
      in Inr (digest_hex (sha256 commitmentData)))"

text \<open>
  \<open>String(n)\<close> for an integral number \<open>n\<close> of magnitude below \<open>10^21\<close>: its decimal
  digits. It stands for \<open>toText\<close> where the model is evaluated at such grades.
\<close>

definition show_int :: "int \<Rightarrow> string" where
  "show_int i = (if i < 0 then CHR ''-'' # to_decimal (nat (- i)) else to_decimal (nat i))"

text \<open>
  A digest function for evaluating the model at concrete inputs. The theorems hold for
  every digest function; closed instances need one that computes.
\<close>

definition example_sha256 :: sha256_fn where
  "example_sha256 s = of_nat (length s + sum_list (map of_char s))"

text \<open>
  \<open>ZKProofService.prepareCircuitInputs\<close>: the object handed to the prover. The two
  texts go through \<open>stringToFieldElement\<close>, the numbers are passed as they are; the
  commitment computed first is not used. The object has no root, sibling or path.
\<close>

record 'n prepared_inputs =
  pi_studentId :: string
  pi_subjects :: "'n list"
  pi_salt :: string
  pi_minPassingGrade :: 'n
  pi_requireAllPassed :: nat

definition prepareCircuitInputs ::
  "sha256_fn \<Rightarrow> ('n \<Rightarrow> string) \<Rightarrow> 'n raw_input \<Rightarrow> error + 'n prepared_inputs" where
  "prepareCircuitInputs sha256 toText rawInput =
     bind_err (calculateCommitment sha256 toText rawInput) (\<lambda>commitment.
     bind_err (stringToFieldElement sha256 (ri_studentId rawInput)) (\<lambda>sid.
     bind_err (stringToFieldElement sha256 (ri_salt rawInput)) (\<lambda>slt.
       Inr \<lparr>pi_studentId = sid,
            pi_subjects = ri_subjects rawInput,
            pi_salt = slt,
            pi_minPassingGrade = ri_minPassingGrade rawInput,
            pi_requireAllPassed = (if ri_requireAllPassed rawInput then 1 else 0)\<rparr>)))"

section \<open>The threshold circuit\<close>

text \<open>
  A signal is an element of the scalar field: an integer modulo the BN254 modulus.
  \<open>certificate.circom\<close> includes its comparators, gates and hash from the package
  circomlib, which is not among the sources; they are given here as the package
  defines them. \<open>None\<close> is a constraint that no witness satisfies.
\<close>

definition FIELD_P :: int where
  "FIELD_P = int BN254_FIELD_MODULUS"

text \<open>
  \<open>Num2Bits(n)\<close>: the output bits are constrained to be binary and to sum to the
  input, so a witness exists exactly for an input below \<open>2^n\<close>; \<open>out[i]\<close> is bit \<open>i\<close>.
\<close>

definition Num2Bits :: "nat \<Rightarrow> int \<Rightarrow> (nat \<Rightarrow> int) option" where
  "Num2Bits n x =
     (let v = x mod FIELD_P in
      if v < 2 ^ n then Some (\<lambda>i. v div 2 ^ i mod 2) else None)"

text \<open>
  \<open>LessThan(n)\<close>: \<open>n2b = Num2Bits(n+1)\<close>, \<open>n2b.in <== in[0] + (1<<n) - in[1]\<close>,
  \<open>out <== 1 - n2b.out[n]\<close>. The inputs themselves are not constrained to \<open>n\<close> bits.
\<close>

definition LessThan :: "nat \<Rightarrow> int \<Rightarrow> int \<Rightarrow> int option" where
  "LessThan n a b =
     (case Num2Bits (n + 1) (a + 2 ^ n - b) of
        None \<Rightarrow> None
      | Some out \<Rightarrow> Some ((1 - out n) mod FIELD_P))"

text \<open>\<open>LessEqThan(n)\<close>: \<open>LessThan(n)\<close> on \<open>in[0]\<close> and \<open>in[1] + 1\<close>.\<close>

definition LessEqThan :: "nat \<Rightarrow> int \<Rightarrow> int \<Rightarrow> int option" where
  "LessEqThan n a b = LessThan n a (b + 1)"

text \<open>\<open>GreaterEqThan(n)\<close>: \<open>LessThan(n)\<close> on \<open>in[1]\<close> and \<open>in[0] + 1\<close>.\<close>

definition GreaterEqThan :: "nat \<Rightarrow> int \<Rightarrow> int \<Rightarrow> int option" where
  "GreaterEqThan n a b = LessThan n b (a + 1)"

text \<open>The gates: \<open>out <== a*b\<close>, \<open>out <== a + b - a*b\<close>, \<open>out <== 1 + in - 2*in\<close>.\<close>

definition AND_gate :: "int \<Rightarrow> int \<Rightarrow> int" where
  "AND_gate a b = (a * b) mod FIELD_P"

definition OR_gate :: "int \<Rightarrow> int \<Rightarrow> int" where
  "OR_gate a b = (a + b - a * b) mod FIELD_P"

definition NOT_gate :: "int \<Rightarrow> int" where
  "NOT_gate a = (1 + a - 2 * a) mod FIELD_P"

text \<open>The hash component \<open>Poseidon(nSubjects + 2)\<close> is a parameter of the model.\<close>

type_synonym poseidon_fn = "int list \<Rightarrow> int"

record circuit_signals =
  studentId :: int
  subjects :: "int list"
  salt :: int
  minPassingGrade :: int
  requireAllPassed :: int

record circuit_outputs =
  isValid :: int
  commitment :: int

text \<open>
  The chain \<open>andGates\<close> of template \<open>CertificateVerifier\<close>: \<open>andGates[0]\<close> joins the
  first two checks, \<open>andGates[i]\<close> joins \<open>andGates[i-1]\<close> and check \<open>i+1\<close>; with one
  subject the signal is the check itself; \<open>var allPassedSignal = 1\<close> before that.
\<close>

fun allPassedSignal :: "int list \<Rightarrow> int" where
  "allPassedSignal [] = 1"
| "allPassedSignal [g] = g"
| "allPassedSignal (g0 # g1 # gs) = foldl AND_gate (AND_gate g0 g1) gs"

text \<open>The outputs of the components \<open>gradeChecks[i]\<close> and \<open>rangeCheck\<close>, one per subject.\<close>

definition gradeChecks :: "circuit_signals \<Rightarrow> int list option" where
  "gradeChecks w = those (map (\<lambda>s. GreaterEqThan 8 s (minPassingGrade w)) (subjects w))"

definition rangeChecks :: "circuit_signals \<Rightarrow> int list option" where
  "rangeChecks w = those (map (\<lambda>s. LessEqThan 8 s 100) (subjects w))"

text \<open>
  Template \<open>CertificateVerifier(nSubjects)\<close> of \<open>certificate.circom\<close> (lines 162 to
  231), the circuit \<open>ZKProofService\<close> proves with (\<open>certificate_simple\<close>). It has no
  root, sibling or path input. \<open>None\<close>: no witness is accepted (the template cannot be
  instantiated, or a constraint fails). The range check constrains
  \<open>rangeCheck.out === 1\<close> for every subject; \<open>minPassingGrade\<close> and
  \<open>requireAllPassed\<close> are not constrained.
\<close>

definition CertificateVerifier ::
  "poseidon_fn \<Rightarrow> nat \<Rightarrow> circuit_signals \<Rightarrow> circuit_outputs option" where
  "CertificateVerifier poseidon nSubjects w =
     (if nSubjects = 0 \<or> length (subjects w) \<noteq> nSubjects then None
      else
        case gradeChecks w of
          None \<Rightarrow> None
        | Some checks \<Rightarrow>
            (case rangeChecks w of
               None \<Rightarrow> None
             | Some ranges \<Rightarrow>
                 if \<not> list_all (\<lambda>out. out = 1) ranges then None
                 else
                   let notRequired = NOT_gate (requireAllPassed w);
                       requiredAndPassed =
                         AND_gate (requireAllPassed w) (allPassedSignal checks);
                       finalCheck = OR_gate notRequired requiredAndPassed
                   in Some \<lparr>isValid = finalCheck,
                            commitment = poseidon (studentId w # salt w # subjects w)\<rparr>))"

text \<open>\<open>component main = CertificateVerifier(5)\<close>.\<close>

definition main_component :: "poseidon_fn \<Rightarrow> circuit_signals \<Rightarrow> circuit_outputs option" where
  "main_component poseidon w = CertificateVerifier poseidon 5 w"

text \<open>
  Template \<open>FinalValidation\<close> of \<open>certificate.circom\<close> (lines 120 to 145), the last
  step of the other template of the file, \<open>CertificateVerification\<close>, whose only output
  is \<open>isValid <== finalValidation.out\<close>: the grade gate joined with \<open>merkleValid\<close>, the
  comparison of the recomputed Merkle root with the public root.
\<close>

definition FinalValidation :: "int \<Rightarrow> int \<Rightarrow> int \<Rightarrow> int" where
  "FinalValidation merkleValid allPassed requireAll =
     (let notRequireAll = NOT_gate requireAll;
          andGate = AND_gate requireAll allPassed;
          validator = OR_gate notRequireAll andGate;
          finalAnd = AND_gate merkleValid validator
      in finalAnd)"

text \<open>A hash for evaluating the circuit at concrete inputs.\<close>

definition example_poseidon :: poseidon_fn where
  "example_poseidon xs = foldl (\<lambda>acc x. (31 * acc + x + 7) mod 1000003) 0 xs"

section \<open>Proof objects of the proof service\<close>

text \<open>
  Proofs and tree data arrive as JSON, so a function can be handed a value of any
  shape. \<open>JObj\<close> lists an object's own properties.
\<close>

datatype jsval =
    JUndefined
  | JNull
  | JBool bool
  | JNum int
  | JStr string
  | JArr "jsval list"
  | JObj "(string \<times> jsval) list"

text \<open>
  \<open>value.name\<close>, for a name that no built-in prototype defines (the names read here are
  \<open>a\<close>, \<open>b\<close>, \<open>c\<close>, \<open>pi_a\<close>, \<open>pi_b\<close>, \<open>pi_c\<close>): a TypeError on \<open>undefined\<close> and
  \<open>null\<close>, \<open>undefined\<close> when the property is missing.
\<close>

fun get_prop :: "jsval \<Rightarrow> string \<Rightarrow> error + jsval" where
  "get_prop JUndefined name = Inl TypeError"
| "get_prop JNull name = Inl TypeError"
| "get_prop (JObj props) name =
     Inr (case map_of props name of None \<Rightarrow> JUndefined | Some v \<Rightarrow> v)"
| "get_prop v name = Inr JUndefined"

text \<open>\<open>value[i]\<close> for an index \<open>i\<close>.\<close>

fun get_index :: "jsval \<Rightarrow> nat \<Rightarrow> error + jsval" where
  "get_index JUndefined i = Inl TypeError"
| "get_index JNull i = Inl TypeError"
| "get_index (JArr xs) i = Inr (if i < length xs then xs ! i else JUndefined)"
| "get_index (JStr s) i = Inr (if i < length s then JStr [s ! i] else JUndefined)"
| "get_index (JObj props) i =
     Inr (case map_of props (to_decimal i) of None \<Rightarrow> JUndefined | Some v \<Rightarrow> v)"
| "get_index v i = Inr JUndefined"

text \<open>\<open>value.name[i]\<close> and \<open>value.name[i][j]\<close>.\<close>

definition coord :: "jsval \<Rightarrow> string \<Rightarrow> nat \<Rightarrow> error + jsval" where
  "coord v name i = bind_err (get_prop v name) (\<lambda>point. get_index point i)"

definition coord2 :: "jsval \<Rightarrow> string \<Rightarrow> nat \<Rightarrow> nat \<Rightarrow> error + jsval" where
  "coord2 v name i j = bind_err (coord v name i) (\<lambda>row. get_index row j)"

text \<open>\<open>ZKProofService.formatProofForSolidity\<close>.\<close>

definition formatProofForSolidity :: "jsval \<Rightarrow> error + jsval" where
  "formatProofForSolidity prf =
     bind_err (coord prf ''pi_a'' 0) (\<lambda>a0.
     bind_err (coord prf ''pi_a'' 1) (\<lambda>a1.
     bind_err (coord2 prf ''pi_b'' 0 1) (\<lambda>b01.
     bind_err (coord2 prf ''pi_b'' 0 0) (\<lambda>b00.
     bind_err (coord2 prf ''pi_b'' 1 1) (\<lambda>b11.
     bind_err (coord2 prf ''pi_b'' 1 0) (\<lambda>b10.
     bind_err (coord prf ''pi_c'' 0) (\<lambda>c0.
     bind_err (coord prf ''pi_c'' 1) (\<lambda>c1.
       Inr (JObj [(''a'', JArr [a0, a1]),
                  (''b'', JArr [JArr [b01, b00], JArr [b11, b10]]),
                  (''c'', JArr [c0, c1])])))))))))"

text \<open>\<open>CertificateUtils.formatProofForContract\<close>: the same body.\<close>

definition formatProofForContract :: "jsval \<Rightarrow> error + jsval" where
  "formatProofForContract prf =
     bind_err (coord prf ''pi_a'' 0) (\<lambda>a0.
     bind_err (coord prf ''pi_a'' 1) (\<lambda>a1.
     bind_err (coord2 prf ''pi_b'' 0 1) (\<lambda>b01.
     bind_err (coord2 prf ''pi_b'' 0 0) (\<lambda>b00.
     bind_err (coord2 prf ''pi_b'' 1 1) (\<lambda>b11.
     bind_err (coord2 prf ''pi_b'' 1 0) (\<lambda>b10.
     bind_err (coord prf ''pi_c'' 0) (\<lambda>c0.
     bind_err (coord prf ''pi_c'' 1) (\<lambda>c1.
       Inr (JObj [(''a'', JArr [a0, a1]),
                  (''b'', JArr [JArr [b01, b00], JArr [b11, b10]]),
                  (''c'', JArr [c0, c1])])))))))))"

text \<open>\<open>ZKProofService.formatProofFromSolidity\<close>.\<close>

definition formatProofFromSolidity :: "jsval \<Rightarrow> error + jsval" where
  "formatProofFromSolidity solidityProof =
     bind_err (coord solidityProof ''a'' 0) (\<lambda>a0.
     bind_err (coord solidityProof ''a'' 1) (\<lambda>a1.
     bind_err (coord2 solidityProof ''b'' 0 1) (\<lambda>b01.
     bind_err (coord2 solidityProof ''b'' 0 0) (\<lambda>b00.
     bind_err (coord2 solidityProof ''b'' 1 1) (\<lambda>b11.
     bind_err (coord2 solidityProof ''b'' 1 0) (\<lambda>b10.
     bind_err (coord solidityProof ''c'' 0) (\<lambda>c0.
     bind_err (coord solidityProof ''c'' 1) (\<lambda>c1.
       Inr (JObj [(''pi_a'', JArr [a0, a1, JStr ''1'']),
                  (''pi_b'', JArr [JArr [b01, b00], JArr [b11, b10],
                                   JArr [JStr ''1'', JStr ''0'']]),
                  (''pi_c'', JArr [c0, c1, JStr ''1'']),
                  (''protocol'', JStr ''groth16'')])))))))))"

text \<open>
  A proof as snarkjs gives it and as the route \<open>/api/zkproofs/verify\<close> validates it:
  \<open>pi_a\<close> and \<open>pi_c\<close> are arrays of three strings, \<open>pi_b\<close> an array of three rows of
  two strings.
\<close>

fun is_string :: "jsval \<Rightarrow> bool" where
  "is_string (JStr s) = True"
| "is_string v = False"

fun is_string_array :: "nat \<Rightarrow> jsval \<Rightarrow> bool" where
  "is_string_array n (JArr xs) = (length xs = n \<and> list_all is_string xs)"
| "is_string_array n v = False"

fun is_row_array :: "jsval \<Rightarrow> bool" where
  "is_row_array (JArr rows) = (length rows = 3 \<and> list_all (is_string_array 2) rows)"
| "is_row_array v = False"

fun is_snarkjs_proof :: "jsval \<Rightarrow> bool" where
  "is_snarkjs_proof (JObj props) =
     (case (map_of props ''pi_a'', map_of props ''pi_b'', map_of props ''pi_c'') of
        (Some a, Some b, Some c) \<Rightarrow> is_string_array 3 a \<and> is_row_array b \<and> is_string_array 3 c
      | _ \<Rightarrow> False)"
| "is_snarkjs_proof v = False"

text \<open>
  \<open>ZKProofService.verifyProof\<close>. The file system is the content of
  \<open>keys/verification_key.json\<close>, \<open>None\<close> when the file does not exist. \<open>JSON.parse\<close>
  and \<open>snarkjs.groth16.verify\<close> are parameters; each can throw.
\<close>

record key_store =
  verification_key_json :: "string option"

type_synonym json_parse = "string \<Rightarrow> error + jsval"
type_synonym groth16_verify = "jsval \<Rightarrow> jsval \<Rightarrow> jsval \<Rightarrow> error + bool"

definition ZKProofService_verifyProof ::
  "json_parse \<Rightarrow> groth16_verify \<Rightarrow> key_store \<Rightarrow> jsval \<Rightarrow> jsval \<Rightarrow> error + bool" where
  "ZKProofService_verifyProof JSON_parse groth16 fs prf publicSignals =
     try_catch
       (case verification_key_json fs of
          None \<Rightarrow> Inl KeyNotFound
        | Some text \<Rightarrow>
            bind_err (JSON_parse text) (\<lambda>verificationKey.
            bind_err (formatProofFromSolidity prf) (\<lambda>formattedProof.
            bind_err (groth16 verificationKey publicSignals formattedProof) (\<lambda>isValid.
              Inr isValid))))
       (\<lambda>error. Inr False)"

text \<open>Stand-ins for the two parameters, for evaluating the service at concrete inputs.\<close>

definition example_JSON_parse :: json_parse where
  "example_JSON_parse text = (if text = [] then Inl SyntaxError else Inr (JStr text))"

definition example_groth16 :: groth16_verify where
  "example_groth16 vk publicSignals prf =
     (case publicSignals of
        JArr xs \<Rightarrow> if length xs = 3 then Inr (is_snarkjs_proof prf) else Inl VerifierFailure
      | _ \<Rightarrow> Inl VerifierFailure)"

section \<open>The Merkle tree library\<close>

text \<open>
  \<open>MerkleService\<close> builds on the package merkletreejs, which is not among the sources;
  its constructor, \<open>getProof\<close> and \<open>verify\<close> are given here as the package defines
  them for the options the source passes. The library calls the hash function it was
  handed on a buffer (the two nodes of a pair, concatenated) and expects the digest; the
  call can throw.
\<close>

type_synonym hash_fn = "bytes \<Rightarrow> error + bytes"

text \<open>
  What the source hands the library as hash function is \<open>crypto.createHash\<close> itself,
  the factory \<open>createHash(algorithm)\<close> of the runtime, which checks that its argument
  is a string: called on a buffer it throws a TypeError.
\<close>

definition crypto_createHash :: hash_fn where
  "crypto_createHash algorithm = Inl TypeError"

datatype position = Left | Right

text \<open>
  A pair under \<open>sortPairs: true\<close>: the two nodes are sorted with \<open>Buffer.compare\<close>,
  concatenated and hashed.
\<close>

definition hash_sorted_pair :: "hash_fn \<Rightarrow> bytes \<Rightarrow> bytes \<Rightarrow> error + bytes" where
  "hash_sorted_pair H left right = H (if left \<le> right then left @ right else right @ left)"

text \<open>
  One round of the constructor's loop; under \<open>duplicateOdd: true\<close> the last node of an
  odd level is paired with itself.
\<close>

fun next_layer :: "hash_fn \<Rightarrow> bytes list \<Rightarrow> error + bytes list" where
  "next_layer H (a # b # nodes) =
     (case hash_sorted_pair H a b of
        Inl e \<Rightarrow> Inl e
      | Inr h \<Rightarrow> (case next_layer H nodes of Inl e \<Rightarrow> Inl e | Inr hs \<Rightarrow> Inr (h # hs)))"
| "next_layer H [a] =
     (case hash_sorted_pair H a a of Inl e \<Rightarrow> Inl e | Inr h \<Rightarrow> Inr [h])"
| "next_layer H [] = Inr []"

text \<open>
  The constructor's loop \<open>while (nodes.length > 1)\<close>: the levels of the tree, the
  leaves first (\<open>hashLeaves: false\<close>, they are not hashed again). Nothing is hashed for
  fewer than two leaves.
\<close>

function build_layers :: "hash_fn \<Rightarrow> bytes list \<Rightarrow> error + bytes list list" where
  "build_layers H nodes =
     (if length nodes \<le> 1 then Inr [nodes]
      else
        case next_layer H nodes of
          Inl e \<Rightarrow> Inl e
        | Inr upper \<Rightarrow>
            (case build_layers H upper of Inl e \<Rightarrow> Inl e | Inr rest \<Rightarrow> Inr (nodes # rest)))"
  by pat_completeness auto
termination
proof (relation "measure (\<lambda>(H, nodes). length nodes)")
  show "wf (measure (\<lambda>(H :: hash_fn, nodes :: bytes list). length nodes))"
    by simp
next
  fix H :: hash_fn and nodes upper :: "bytes list"
  have half: "next_layer H xs = Inr ys \<Longrightarrow> length ys = (length xs + 1) div 2" for xs ys
    by (induction H xs arbitrary: ys rule: next_layer.induct) (auto split: sum.splits)
  assume "\<not> length nodes \<le> 1" and "next_layer H nodes = Inr upper"
  then show "((H, upper), (H, nodes)) \<in> measure (\<lambda>(H, nodes). length nodes)"
    using half [of nodes upper] by simp
qed

declare build_layers.simps [simp del]

record merkle_tree =
  tree_leaves :: "bytes list"
  tree_layers :: "bytes list list"

text \<open>\<open>new MerkleTree(leaves, hash, {hashLeaves: false, sortPairs: true, duplicateOdd: true})\<close>.\<close>

definition MerkleTree_new :: "hash_fn \<Rightarrow> bytes list \<Rightarrow> error + merkle_tree" where
  "MerkleTree_new H leaves =
     (case build_layers H leaves of
        Inl e \<Rightarrow> Inl e
      | Inr layers \<Rightarrow> Inr \<lparr>tree_leaves = leaves, tree_layers = layers\<rparr>)"

text \<open>\<open>tree.getRoot()\<close>: the node of the last level; the empty buffer when there is none.\<close>

definition getRoot :: "merkle_tree \<Rightarrow> bytes" where
  "getRoot t =
     (case tree_layers t of
        [] \<Rightarrow> []
      | layers \<Rightarrow> (case last layers of [] \<Rightarrow> [] | root # rest \<Rightarrow> root))"

definition getLeaves :: "merkle_tree \<Rightarrow> bytes list" where
  "getLeaves t = tree_leaves t"

definition getLayers :: "merkle_tree \<Rightarrow> bytes list list" where
  "getLayers t = tree_layers t"

text \<open>The search of \<open>getProof\<close> runs over all leaves and keeps the last index that matches.\<close>

fun last_index_of :: "'a \<Rightarrow> 'a list \<Rightarrow> nat option" where
  "last_index_of x [] = None"
| "last_index_of x (y # ys) =
     (case last_index_of x ys of
        Some i \<Rightarrow> Some (Suc i)
      | None \<Rightarrow> if x = y then Some 0 else None)"

text \<open>
  The loop of \<open>getProof\<close> over all levels, the root level included: the node at
  \<open>pairIndex\<close> is pushed with its side when \<open>pairIndex < layer.length\<close>. For the
  unpaired last node of an odd level \<open>pairIndex\<close> is the length of the level, and
  nothing is pushed.
\<close>

fun proof_path :: "bytes list list \<Rightarrow> nat \<Rightarrow> (position \<times> bytes) list" where
  "proof_path [] index = []"
| "proof_path (layer # layers) index =
     (let pairIndex = (if odd index then index - 1 else index + 1) in
      (if pairIndex < length layer
       then [(if odd index then Left else Right, layer ! pairIndex)]
       else [])
      @ proof_path layers (index div 2))"

text \<open>\<open>tree.getProof(leaf)\<close>; the empty proof for a leaf that is not in the tree.\<close>

definition getProof :: "merkle_tree \<Rightarrow> bytes \<Rightarrow> (position \<times> bytes) list" where
  "getProof t leaf =
     (case last_index_of leaf (tree_leaves t) of
        None \<Rightarrow> []
      | Some index \<Rightarrow> proof_path (tree_layers t) index)"

text \<open>
  The loop of \<open>verify\<close> without options, as the source calls it: pairs are not sorted;
  an element on the left is put before the running hash, any other after it, and the
  concatenation is hashed.
\<close>

fun verify_path :: "hash_fn \<Rightarrow> bytes \<Rightarrow> (position \<times> bytes) list \<Rightarrow> error + bytes" where
  "verify_path H hash [] = Inr hash"
| "verify_path H hash (element # elements) =
     (case H (if fst element = Left then snd element @ hash else hash @ snd element) of
        Inl e \<Rightarrow> Inl e
      | Inr h \<Rightarrow> verify_path H h elements)"

text \<open>\<open>MerkleTree.verify(proof, leaf, root, hash)\<close>: true iff the last hash is the root.\<close>

definition MerkleTree_verify ::
  "hash_fn \<Rightarrow> (position \<times> bytes) list \<Rightarrow> bytes \<Rightarrow> bytes \<Rightarrow> error + bool" where
  "MerkleTree_verify H elements leaf root =
     (case verify_path H leaf elements of Inl e \<Rightarrow> Inl e | Inr h \<Rightarrow> Inr (h = root))"

text \<open>A hash that does return a digest, for evaluating the library at concrete inputs.\<close>

definition example_hash :: "bytes \<Rightarrow> bytes" where
  "example_hash bs = [of_nat (length bs), sum_list bs + 1]"

section \<open>MerkleService\<close>

text \<open>
  In the functions of \<open>MerkleService\<close> the parameter \<open>createHash\<close> is the value of
  \<open>crypto.createHash\<close> that the function hands to the library; in the runtime it is
  \<open>crypto_createHash\<close>.
\<close>

record certificate =
  cert_studentId :: string
  cert_commitment :: "string option"

text \<open>
  \<open>MerkleService.buildMerkleTree\<close>. A commitment that is missing or empty is falsy and
  raises.
\<close>

definition buildMerkleTree :: "hash_fn \<Rightarrow> certificate list \<Rightarrow> error + merkle_tree" where
  "buildMerkleTree createHash certificates =
     (if certificates = [] then Inl EmptyCertificates
      else
        bind_err
          (map_err (\<lambda>cert.
             case cert_commitment cert of
               None \<Rightarrow> Inl MissingCommitment
             | Some c \<Rightarrow> if c = [] then Inl MissingCommitment else Inr (from_hex c))
           certificates)
          (\<lambda>leaves. MerkleTree_new createHash leaves))"

definition position_name :: "position \<Rightarrow> string" where
  "position_name pos = (case pos of Left \<Rightarrow> ''left'' | Right \<Rightarrow> ''right'')"

text \<open>
  \<open>MerkleService.generateMerkleProof\<close>: every element of the library's proof becomes an
  object \<open>{data, position}\<close>, the data in hexadecimal.
\<close>

definition generateMerkleProof :: "merkle_tree \<Rightarrow> string \<Rightarrow> jsval list" where
  "generateMerkleProof merkleTree commitmentHash =
     (let leaf = from_hex commitmentHash;
          elements = getProof merkleTree leaf
      in map (\<lambda>element.
                JObj [(''data'', JStr (to_hex (snd element))),
                      (''position'', JStr (position_name (fst element)))])
             elements)"

text \<open>\<open>str.replace('0x', '')\<close>: the first occurrence of \<open>0x\<close>, wherever it is, is removed.\<close>

fun remove_0x :: "string \<Rightarrow> string" where
  "remove_0x (c # d # cs) =
     (if c = CHR ''0'' \<and> d = CHR ''x'' then cs else c # remove_0x (d # cs))"
| "remove_0x cs = cs"

text \<open>
  The callback of \<open>proof.map\<close> in \<open>verifyProof\<close>: \<open>element.replace\<close> is a function for
  a string only, and calling it on any other value is a TypeError.
\<close>

fun proof_element :: "jsval \<Rightarrow> error + (position \<times> bytes)" where
  "proof_element (JStr s) = Inr (Left, from_hex (remove_0x s))"
| "proof_element v = Inl TypeError"

text \<open>
  \<open>MerkleService.verifyProof\<close>. The commitment and the root are strings; the proof is
  any value: \<open>proof.map\<close> is a function for an array only.
\<close>

definition MerkleService_verifyProof :: "hash_fn \<Rightarrow> string \<Rightarrow> jsval \<Rightarrow> string \<Rightarrow> error + bool" where
  "MerkleService_verifyProof createHash commitmentHash prf merkleRoot =
     try_catch
       (let leaf = from_hex commitmentHash;
            root = from_hex (remove_0x merkleRoot)
        in bind_err
             (case prf of JArr elements \<Rightarrow> map_err proof_element elements | _ \<Rightarrow> Inl TypeError)
             (\<lambda>proofElements. MerkleTree_verify createHash proofElements leaf root))
       (\<lambda>error. Inr False)"

record tree_stats =
  totalLeaves :: nat
  treeDepth :: nat
  stats_merkleRoot :: string
  totalNodes :: nat

text \<open>\<open>MerkleService.getTreeStats\<close>; \<open>layers.length - 1\<close> is a JavaScript number.\<close>

definition getTreeStats :: "merkle_tree \<Rightarrow> tree_stats" where
  "getTreeStats merkleTree =
     (let leaves = getLeaves merkleTree; layers = getLayers merkleTree in
      \<lparr>totalLeaves = length leaves,
       treeDepth = length layers - 1,
       stats_merkleRoot = to_hex (getRoot merkleTree),
       totalNodes = foldl (\<lambda>sum layer. sum + length layer) 0 layers\<rparr>)"

record exported_certificate =
  ex_studentId :: string
  ex_commitment :: "string option"
  ex_proof :: "jsval list"

record export_metadata =
  totalCertificates :: nat
  createdAt :: string
  version :: string

text \<open>
  The object \<open>exportTreeData\<close> returns and \<open>importTreeData\<close> reads. \<open>td_leaves\<close> is
  \<open>None\<close> when the property \<open>leaves\<close> is missing, falsy or not an array. The model is
  restricted to arrays of strings: that is what the export writes, and the schema of the
  route \<open>/import-tree\<close>, the caller of the import, admits an array of hexadecimal
  strings only. What \<open>Buffer.from\<close> does with a leaf of another type is not modelled.
\<close>

record tree_data =
  td_merkleRoot :: string
  td_leaves :: "string list option"
  td_certificates :: "exported_certificate list"
  td_metadata :: export_metadata

text \<open>
  \<open>MerkleService.exportTreeData\<close>; \<open>now\<close> is \<open>new Date().toISOString()\<close>.
  \<open>Buffer.from(undefined, 'hex')\<close> in \<open>generateMerkleProof\<close> is a TypeError.
\<close>

definition exportTreeData :: "string \<Rightarrow> merkle_tree \<Rightarrow> certificate list \<Rightarrow> error + tree_data" where
  "exportTreeData now merkleTree certificates =
     bind_err
       (map_err (\<lambda>cert.
          bind_err
            (case cert_commitment cert of
               None \<Rightarrow> Inl TypeError
             | Some c \<Rightarrow> Inr (generateMerkleProof merkleTree c))
            (\<lambda>prf. Inr \<lparr>ex_studentId = cert_studentId cert,
                         ex_commitment = cert_commitment cert,
                         ex_proof = prf\<rparr>))
        certificates)
       (\<lambda>certs.
          Inr \<lparr>td_merkleRoot = to_hex (getRoot merkleTree),
               td_leaves = Some (map to_hex (getLeaves merkleTree)),
               td_certificates = certs,
               td_metadata = \<lparr>totalCertificates = length certificates,
                               createdAt = now,
                               version = ''1.0.0''\<rparr>\<rparr>)"

text \<open>\<open>MerkleService.importTreeData\<close>.\<close>

definition importTreeData :: "hash_fn \<Rightarrow> tree_data \<Rightarrow> error + merkle_tree" where
  "importTreeData createHash treeData =
     (case td_leaves treeData of
        None \<Rightarrow> Inl InvalidTreeData
      | Some leafHexes \<Rightarrow>
          let leaves = map from_hex leafHexes in
          bind_err (MerkleTree_new createHash leaves) (\<lambda>reconstructedTree.
            let reconstructedRoot = to_hex (getRoot reconstructedTree) in
            if reconstructedRoot \<noteq> td_merkleRoot treeData then Inl RootMismatch
            else Inr reconstructedTree))"

section \<open>Lemmas on the codecs\<close>

lemma hex_val_hex_digit: "n < 16 \<Longrightarrow> hex_val (hex_digit n) = Some n"
proof -
  have table: "list_all (\<lambda>k. hex_val (hex_digit k) = Some k) [0..<16]"
    by code_simp
  assume "n < 16"
  then have "n \<in> set [0..<16]" by simp
  with table show ?thesis
    unfolding list_all_iff by blast
qed

lemma from_hex_to_hex: "from_hex (to_hex bs) = bs"
proof (induction bs)
  case Nil
  then show ?case by simp
next
  case (Cons b bs)
  have hi: "hex_val (hex_digit (unat b div 16)) = Some (unat b div 16)"
    using unsigned_less [of b, where 'a = nat] by (intro hex_val_hex_digit) simp
  have lo: "hex_val (hex_digit (unat b mod 16)) = Some (unat b mod 16)"
    by (intro hex_val_hex_digit) simp
  have "(of_nat (16 * (unat b div 16) + unat b mod 16) :: 8 word) = b"
    by simp
  then show ?case using Cons.IH by (simp add: hi lo)
qed

lemma digest_hex_not_empty: "digest_hex w \<noteq> []"
  by (simp add: digest_hex_def digest_bytes_def upt_rec [of 0])

lemma of_decimal_snoc: "of_decimal (s @ [c]) = 10 * of_decimal s + ((of_char c :: nat) - 48)"
  by (simp add: of_decimal_def)

lemma of_char_digit_char: "(of_char (digit_char n) :: nat) - 48 = n mod 10"
proof -
  have "48 + n mod 10 < 256"
    using mod_less_divisor [of 10 n] by linarith
  then show ?thesis by (simp add: digit_char_def)
qed

lemma of_decimal_to_decimal: "of_decimal (to_decimal n) = n"
proof (induction n rule: to_decimal.induct)
  case (1 n)
  show ?case
  proof (cases "n < 10")
    case True
    then show ?thesis
      using of_char_digit_char [of n] by (simp add: of_decimal_def to_decimal.simps [of n])
  next
    case False
    then have "to_decimal n = to_decimal (n div 10) @ [digit_char n]"
      by (subst to_decimal.simps) simp
    then show ?thesis
      using 1 False by (simp add: of_decimal_snoc of_char_digit_char)
  qed
qed

lemma length_to_hex: "length (to_hex bs) = 2 * length bs"
  by (induction bs) auto

lemma length_digest_hex: "length (digest_hex w) = 64"
  by (simp add: digest_hex_def digest_bytes_def length_to_hex)

section \<open>Lemmas on the proof service\<close>

lemma is_string_array_2E:
  assumes "is_string_array 2 v"
  obtains x y where "v = JArr [JStr x, JStr y]"
proof -
  from assms obtain xs where v: "v = JArr xs" and len: "length xs = 2"
    and all: "list_all is_string xs"
    by (cases v) auto
  from len obtain a b where xs: "xs = [a, b]"
    by (cases xs; cases "tl xs") auto
  from all xs obtain x y where "a = JStr x" "b = JStr y"
    by (cases a; cases b) auto
  with v xs that show thesis by blast
qed

lemma is_string_array_3E:
  assumes "is_string_array 3 v"
  obtains x y z where "v = JArr [JStr x, JStr y, JStr z]"
proof -
  from assms obtain xs where v: "v = JArr xs" and len: "length xs = 3"
    and all: "list_all is_string xs"
    by (cases v) auto
  from len obtain a b c where xs: "xs = [a, b, c]"
    by (cases xs; cases "tl xs"; cases "tl (tl xs)") auto
  from all xs obtain x y z where "a = JStr x" "b = JStr y" "c = JStr z"
    by (cases a; cases b; cases c) auto
  with v xs that show thesis by blast
qed

lemma is_row_arrayE:
  assumes "is_row_array v"
  obtains r0 r1 r2 where "v = JArr [r0, r1, r2]"
    "is_string_array 2 r0" "is_string_array 2 r1" "is_string_array 2 r2"
proof -
  from assms obtain xs where v: "v = JArr xs" and len: "length xs = 3"
    and all: "list_all (is_string_array 2) xs"
    by (cases v) auto
  from len obtain a b c where xs: "xs = [a, b, c]"
    by (cases xs; cases "tl xs"; cases "tl (tl xs)") auto
  with v all that show thesis by auto
qed

lemma is_snarkjs_proofE:
  assumes "is_snarkjs_proof p"
  obtains props a0 a1 a2 b00 b01 b10 b11 b20 b21 c0 c1 c2 where
    "p = JObj props"
    "map_of props ''pi_a'' = Some (JArr [JStr a0, JStr a1, JStr a2])"
    "map_of props ''pi_b'' = Some (JArr [JArr [JStr b00, JStr b01], JArr [JStr b10, JStr b11],
       JArr [JStr b20, JStr b21]])"
    "map_of props ''pi_c'' = Some (JArr [JStr c0, JStr c1, JStr c2])"
proof -
  from assms obtain props where p: "p = JObj props" by (cases p) auto
  from assms p obtain a b c where m: "map_of props ''pi_a'' = Some a"
    "map_of props ''pi_b'' = Some b" "map_of props ''pi_c'' = Some c"
    and sh: "is_string_array 3 a" "is_row_array b" "is_string_array 3 c"
    by (auto split: option.splits)
  from sh(1) obtain a0 a1 a2 where a: "a = JArr [JStr a0, JStr a1, JStr a2]"
    by (rule is_string_array_3E)
  from sh(3) obtain c0 c1 c2 where c: "c = JArr [JStr c0, JStr c1, JStr c2]"
    by (rule is_string_array_3E)
  from sh(2) obtain r0 r1 r2 where b: "b = JArr [r0, r1, r2]"
    and r: "is_string_array 2 r0" "is_string_array 2 r1" "is_string_array 2 r2"
    by (rule is_row_arrayE)
  from r(1) obtain b00 b01 where r0: "r0 = JArr [JStr b00, JStr b01]" by (rule is_string_array_2E)
  from r(2) obtain b10 b11 where r1: "r1 = JArr [JStr b10, JStr b11]" by (rule is_string_array_2E)
  from r(3) obtain b20 b21 where r2: "r2 = JArr [JStr b20, JStr b21]" by (rule is_string_array_2E)
  show thesis
    using that [OF p] m a b c r0 r1 r2 by simp
qed

lemma try_catch_False: "\<exists>b. try_catch body (\<lambda>error. Inr False) = Inr b"
  by (cases body) (auto simp: try_catch_def)

section \<open>MerkleService with the hash function of the source\<close>

lemma map_err_Inr_list_all2: "map_err f xs = Inr ys \<Longrightarrow> list_all2 (\<lambda>x y. f x = Inr y) xs ys"
proof (induction xs arbitrary: ys)
  case Nil
  then show ?case by simp
next
  case (Cons x xs)
  from Cons.prems obtain y zs where "f x = Inr y" "map_err f xs = Inr zs" "ys = y # zs"
    by (auto split: sum.splits)
  with Cons.IH show ?case by simp
qed

lemma map_err_total:
  "(\<And>x. x \<in> set xs \<Longrightarrow> \<exists>y. f x = Inr y) \<Longrightarrow> \<exists>ys. map_err f xs = Inr ys"
proof (induction xs)
  case Nil
  then show ?case by simp
next
  case (Cons x xs)
  then obtain y where y: "f x = Inr y" by auto
  from Cons obtain ys where "map_err f xs = Inr ys" by auto
  with y show ?case by simp
qed

lemma next_layer_createHash:
  "nodes \<noteq> [] \<Longrightarrow> next_layer crypto_createHash nodes = Inl TypeError"
  by (cases "(crypto_createHash, nodes)" rule: next_layer.cases)
     (simp_all add: hash_sorted_pair_def crypto_createHash_def)

lemma build_layers_createHash:
  "build_layers crypto_createHash nodes =
     (if length nodes \<le> 1 then Inr [nodes] else Inl TypeError)"
proof (cases "length nodes \<le> 1")
  case True
  then show ?thesis by (simp add: build_layers.simps [of _ nodes])
next
  case False
  then have "nodes \<noteq> []" by auto
  then show ?thesis
    using False by (simp add: build_layers.simps [of _ nodes] next_layer_createHash)
qed

lemma MerkleTree_new_createHash:
  "MerkleTree_new crypto_createHash leaves =
     (if length leaves \<le> 1 then Inr \<lparr>tree_leaves = leaves, tree_layers = [leaves]\<rparr>
      else Inl TypeError)"
  by (simp add: MerkleTree_new_def build_layers_createHash)

lemma buildMerkleTree_throws:
  assumes "2 \<le> length certs"
    and "\<And>cert. cert \<in> set certs \<Longrightarrow> \<exists>c. cert_commitment cert = Some c \<and> c \<noteq> []"
  shows "buildMerkleTree crypto_createHash certs = Inl TypeError"
proof -
  let ?f = "\<lambda>cert. case cert_commitment cert of
               None \<Rightarrow> Inl MissingCommitment
             | Some c \<Rightarrow> if c = [] then Inl MissingCommitment else Inr (from_hex c)"
  have "\<exists>leaf. ?f cert = Inr leaf" if "cert \<in> set certs" for cert
    using assms(2) [OF that] by auto
  then have "\<exists>leaves. map_err ?f certs = Inr leaves"
    by (intro map_err_total) blast
  then obtain leaves where m: "map_err ?f certs = Inr leaves" by blast
  then have "length leaves = length certs"
    using map_err_Inr_list_all2 list_all2_lengthD by fastforce
  with assms(1) have "MerkleTree_new crypto_createHash leaves = Inl TypeError"
    by (simp add: MerkleTree_new_createHash)
  with m assms(1) show ?thesis
    by (auto simp: buildMerkleTree_def bind_err_def)
qed

lemma buildMerkleTree_Inr:
  assumes "buildMerkleTree crypto_createHash certs = Inr t"
  shows "\<exists>cert c. certs = [cert] \<and> cert_commitment cert = Some c \<and> c \<noteq> []
           \<and> t = \<lparr>tree_leaves = [from_hex c], tree_layers = [[from_hex c]]\<rparr>"
proof -
  let ?f = "\<lambda>cert. case cert_commitment cert of
               None \<Rightarrow> Inl MissingCommitment
             | Some c \<Rightarrow> if c = [] then Inl MissingCommitment else Inr (from_hex c)"
  from assms have ne: "certs \<noteq> []"
    by (auto simp: buildMerkleTree_def split: if_splits)
  with assms obtain leaves where m: "map_err ?f certs = Inr leaves"
    and t: "MerkleTree_new crypto_createHash leaves = Inr t"
    by (auto simp: buildMerkleTree_def bind_err_def split: sum.splits)
  from m have l2: "list_all2 (\<lambda>cert leaf. ?f cert = Inr leaf) certs leaves"
    by (rule map_err_Inr_list_all2)
  then have len: "length leaves = length certs"
    by (simp add: list_all2_lengthD)
  from t have small: "length leaves \<le> 1" and tt: "t = \<lparr>tree_leaves = leaves, tree_layers = [leaves]\<rparr>"
    by (auto simp: MerkleTree_new_createHash split: if_splits)
  from ne small len obtain cert where certs: "certs = [cert]"
    by (cases certs; cases "tl certs") auto
  with l2 obtain leaf where leaves: "leaves = [leaf]" and f: "?f cert = Inr leaf"
    by (auto simp: list_all2_Cons1)
  from f obtain c where "cert_commitment cert = Some c" "c \<noteq> []" "leaf = from_hex c"
    by (auto split: option.splits if_splits)
  with certs leaves tt show ?thesis by blast
qed

lemma map_err_length: "map_err f xs = Inr ys \<Longrightarrow> length ys = length xs"
  using map_err_Inr_list_all2 list_all2_lengthD by fastforce

lemma verifyProof_nonempty_False:
  "MerkleService_verifyProof crypto_createHash c (JArr (e # es)) r = Inr False"
proof (cases "map_err proof_element (e # es)")
  case (Inl err)
  then show ?thesis
    by (simp add: MerkleService_verifyProof_def try_catch_def bind_err_def)
next
  case (Inr elements)
  then have "length elements = Suc (length es)"
    using map_err_length by fastforce
  then obtain x xs where "elements = x # xs"
    by (cases elements) auto
  with Inr show ?thesis
    by (simp add: MerkleService_verifyProof_def try_catch_def bind_err_def
        MerkleTree_verify_def Let_def crypto_createHash_def)
qed

lemma hex_digit_not_x: "hex_digit n \<noteq> CHR ''x''"
proof -
  have "list_all (\<lambda>k. hex_digit k \<noteq> CHR ''x'') [0..<16]"
    by code_simp
  moreover have "n mod 16 \<in> set [0..<16]" by simp
  ultimately have "hex_digit (n mod 16) \<noteq> CHR ''x''"
    unfolding list_all_iff by blast
  then show ?thesis by (simp add: hex_digit_def)
qed

lemma remove_0x_no_x: "CHR ''x'' \<notin> set s \<Longrightarrow> remove_0x s = s"
  by (induction s rule: remove_0x.induct) auto

lemma remove_0x_to_hex: "remove_0x (to_hex bs) = to_hex bs"
proof -
  have "CHR ''x'' \<notin> set (to_hex bs)"
    by (induction bs) (simp_all add: hex_digit_not_x hex_digit_not_x [symmetric])
  then show ?thesis by (rule remove_0x_no_x)
qed

lemma one_leaf_tree:
  "getRoot \<lparr>tree_leaves = [leaf], tree_layers = [[leaf]]\<rparr> = leaf"
  "getProof \<lparr>tree_leaves = [leaf], tree_layers = [[leaf]]\<rparr> x = []"
  "treeDepth (getTreeStats \<lparr>tree_leaves = [leaf], tree_layers = [[leaf]]\<rparr>) = 0"
  by (simp_all add: getRoot_def getProof_def getTreeStats_def getLayers_def Let_def
      split: option.splits)

lemma from_hex_aa: "from_hex ''aa'' = [170]" "from_hex ''bb'' = [187]" "from_hex ''cc'' = [204]"
  by code_simp+

lemma exportTreeData_one_leaf:
  assumes "cert_commitment cert = Some c"
  shows "exportTreeData now \<lparr>tree_leaves = [from_hex c], tree_layers = [[from_hex c]]\<rparr> [cert]
     = Inr \<lparr>td_merkleRoot = to_hex (from_hex c),
            td_leaves = Some [to_hex (from_hex c)],
            td_certificates = [\<lparr>ex_studentId = cert_studentId cert,
                                ex_commitment = Some c, ex_proof = []\<rparr>],
            td_metadata = \<lparr>totalCertificates = 1, createdAt = now, version = ''1.0.0''\<rparr>\<rparr>"
  using assms
  by (simp add: exportTreeData_def bind_err_def generateMerkleProof_def one_leaf_tree getLeaves_def)

lemma build_layers_2:
  "build_layers (\<lambda>b. Inr (h b)) [a, b]
     = Inr [[a, b], [h (if a \<le> b then a @ b else b @ a)]]"
  by (simp add: build_layers.simps [of _ "[a, b]"] build_layers.simps [of _ "[x]" for x]
      hash_sorted_pair_def)

lemma build_layers_3:
  "build_layers (\<lambda>b. Inr (h b)) [a, b, c]
     = Inr [[a, b, c],
            [h (if a \<le> b then a @ b else b @ a), h (c @ c)],
            [h (if h (if a \<le> b then a @ b else b @ a) \<le> h (c @ c)
                then h (if a \<le> b then a @ b else b @ a) @ h (c @ c)
                else h (c @ c) @ h (if a \<le> b then a @ b else b @ a))]]"
  by (simp add: build_layers.simps [of _ "[a, b, c]"] build_layers.simps [of _ "[x, y]" for x y]
      build_layers.simps [of _ "[x]" for x] hash_sorted_pair_def)

lemma last_index_of_3: "last_index_of c [a, b, c] = Some 2"
  by simp

lemma to_hex_aa: "to_hex [170] = ''aa''" "to_hex [187] = ''bb''" "to_hex [2, 102] = ''0266''"
  by code_simp+

lemma example_hash_aa_bb: "example_hash [170, 187] = [2, 102]"
  by code_simp

section \<open>Digests as numbers\<close>

lemma hex_digits_value_to_hex_eq:
  "hex_digits_value acc (to_hex bs) = Some (foldl (\<lambda>a b. 256 * a + unat b) acc bs)"
proof (induction bs arbitrary: acc)
  case Nil
  then show ?case by simp
next
  case (Cons b bs)
  have small: "unat b div 16 < 16"
    using unsigned_less [of b, where 'a = nat] by (simp add: less_mult_imp_div_less)
  have "16 * (16 * acc + unat b div 16) + unat b mod 16 = 256 * acc + unat b"
    by presburger
  then show ?case
    using small by (simp add: hex_val_hex_digit Cons.IH add.commute)
qed

lemma unat_byte_of_word:
  "unat (ucast (drop_bit j (w :: 256 word)) :: 8 word) = (unat w div 2 ^ j) mod 256"
proof -
  have "unat (ucast (drop_bit j w) :: 8 word) = take_bit 8 (drop_bit j (unat w))"
    by (simp only: unsigned_ucast_eq unat_drop_bit_eq) simp
  then show ?thesis
    by (simp add: drop_bit_eq_div take_bit_eq_mod)
qed

lemma top_bytes_value:
  "k \<le> 32 \<Longrightarrow>
   foldl (\<lambda>a b. 256 * a + unat b) 0
     (map (\<lambda>i. ucast (drop_bit (8 * (31 - i)) (w :: 256 word)) :: 8 word) [0..<k])
   = unat w div 2 ^ (8 * (32 - k))"
proof (induction k)
  case 0
  have "unat w < 2 ^ 256"
    using unsigned_less [of w, where 'a = nat] by simp
  then show ?case by simp
next
  case (Suc k)
  then have k: "k < 32" by simp
  define m where "m = unat w div 2 ^ (8 * (31 - k))"
  have e: "8 * (32 - k) = 8 * (31 - k) + 8"
    using k by simp
  have "unat w div 2 ^ (8 * (32 - k)) = m div 256"
    unfolding e power_add m_def by (simp add: div_mult2_eq)
  moreover have "32 - Suc k = 31 - k" by simp
  ultimately show ?case
    using Suc.IH k by (simp add: unat_byte_of_word m_def [symmetric])
qed

lemma digest_hex_value: "hex_digits_value 0 (digest_hex w) = Some (unat w)"
  using top_bytes_value [of 32 w]
  by (simp add: digest_hex_def digest_bytes_def hex_digits_value_to_hex_eq)

lemma stringToFieldElement_eq:
  "stringToFieldElement sha256 str = Inr (to_decimal (unat (sha256 str) mod BN254_FIELD_MODULUS))"
  using digest_hex_not_empty [of "sha256 str"]
  by (simp add: stringToFieldElement_def bind_err_def BigInt_hex_def digest_hex_value)

lemma show_int_150: "show_int 150 = ''150''" "show_int 92 = ''92''"
  by code_simp+

section \<open>The comparators and the gates\<close>

lemma FIELD_P_large: "1024 < FIELD_P"
  by (simp add: FIELD_P_def BN254_FIELD_MODULUS_def)

lemma LessThan_8:
  "LessThan 8 a b =
     (if (a + 256 - b) mod FIELD_P < 512
      then Some (if (a + 256 - b) mod FIELD_P < 256 then 1 else 0)
      else None)"
proof -
  define v where "v = (a + 256 - b) mod FIELD_P"
  have nonneg: "0 \<le> v"
    using FIELD_P_large by (simp add: v_def)
  have bit: "(1 - v div 256 mod 2) mod FIELD_P = (if v < 256 then 1 else 0)" if "v < 512"
  proof (cases "v < 256")
    case True
    with nonneg have "v div 256 = 0" by simp
    then show ?thesis using True FIELD_P_large by simp
  next
    case False
    with that have "v div 256 = 1" by simp
    then show ?thesis using False by simp
  qed
  show ?thesis
    using bit by (simp add: LessThan_def Num2Bits_def Let_def v_def [symmetric])
qed

lemma main_example:
  "main_component example_poseidon
     \<lparr>studentId = 1, subjects = [88, 92, 85, 90, 87], salt = 2,
      minPassingGrade = 40, requireAllPassed = 1\<rparr>
   = Some \<lparr>isValid = 1, commitment = example_poseidon [1, 2, 88, 92, 85, 90, 87]\<rparr>"
  by (simp add: main_component_def CertificateVerifier_def gradeChecks_def rangeChecks_def
      GreaterEqThan_def LessEqThan_def LessThan_8 AND_gate_def OR_gate_def NOT_gate_def
      FIELD_P_def BN254_FIELD_MODULUS_def)













lemma FinalValidation_merkleValid:
  "FinalValidation 1 allPassed requireAll
     = OR_gate (NOT_gate requireAll) (AND_gate requireAll allPassed)"
  "FinalValidation 0 allPassed requireAll = 0"
  by (simp_all add: FinalValidation_def AND_gate_def OR_gate_def Let_def)



section \<open>Claims\<close>

text \<open>
  C1. Building a tree, generating the proof of one of its leaves and verifying that proof
  against the root does not return true in \<open>MerkleService\<close> for two or more leaves.
  The service hands \<open>crypto.createHash\<close> to the library as hash function, so
  \<open>buildMerkleTree\<close> throws a TypeError for every sequence of two or more certificates
  with commitments, and no tree exists to generate a proof from; \<open>verifyProof\<close> returns
  false for every non-empty proof, whatever the leaf and the root. The round trip holds
  for the only trees \<open>buildMerkleTree\<close> returns, those of a single leaf: the generated
  proof is empty and is accepted against the root.
\<close>

theorem verifyProof_of_generated_proof:
  "(2 \<le> length certs \<and> (\<forall>cert\<in>set certs. \<exists>c. cert_commitment cert = Some c \<and> c \<noteq> [])
      \<longrightarrow> buildMerkleTree crypto_createHash certs = Inl TypeError)
   \<and> MerkleService_verifyProof crypto_createHash leafHex (JArr (e # es)) rootHex = Inr False
   \<and> (buildMerkleTree crypto_createHash single = Inr t
      \<longrightarrow> (\<exists>cert c. single = [cert] \<and> cert_commitment cert = Some c
            \<and> generateMerkleProof t c = []
            \<and> MerkleService_verifyProof crypto_createHash c
                 (JArr (generateMerkleProof t c)) (to_hex (getRoot t)) = Inr True))"
proof (intro conjI impI)
  assume "2 \<le> length certs \<and> (\<forall>cert\<in>set certs. \<exists>c. cert_commitment cert = Some c \<and> c \<noteq> [])"
  then show "buildMerkleTree crypto_createHash certs = Inl TypeError"
    by (intro buildMerkleTree_throws) auto
next
  show "MerkleService_verifyProof crypto_createHash leafHex (JArr (e # es)) rootHex = Inr False"
    by (rule verifyProof_nonempty_False)
next
  assume "buildMerkleTree crypto_createHash single = Inr t"
  then obtain cert c where certs: "single = [cert]" "cert_commitment cert = Some c"
    and t: "t = \<lparr>tree_leaves = [from_hex c], tree_layers = [[from_hex c]]\<rparr>"
    using buildMerkleTree_Inr by blast
  have g: "generateMerkleProof t c = []"
    by (simp add: generateMerkleProof_def t one_leaf_tree)
  have "MerkleService_verifyProof crypto_createHash c (JArr []) (to_hex (getRoot t)) = Inr True"
    by (simp add: MerkleService_verifyProof_def try_catch_def bind_err_def MerkleTree_verify_def
        t one_leaf_tree remove_0x_to_hex from_hex_to_hex)
  with certs g show "\<exists>cert c. single = [cert] \<and> cert_commitment cert = Some c
            \<and> generateMerkleProof t c = []
            \<and> MerkleService_verifyProof crypto_createHash c
                 (JArr (generateMerkleProof t c)) (to_hex (getRoot t)) = Inr True"
    by auto
qed

theorem verifyProof_of_generated_proof_witness:
  "buildMerkleTree crypto_createHash
      [\<lparr>cert_studentId = ''s1'', cert_commitment = Some ''aa''\<rparr>,
       \<lparr>cert_studentId = ''s2'', cert_commitment = Some ''bb''\<rparr>] = Inl TypeError
   \<and> MerkleService_verifyProof crypto_createHash ''aa''
        (JArr [JObj [(''data'', JStr ''bb''), (''position'', JStr ''right'')]]) ''cc'' = Inr False
   \<and> buildMerkleTree crypto_createHash [\<lparr>cert_studentId = ''s1'', cert_commitment = Some ''aa''\<rparr>]
      = Inr \<lparr>tree_leaves = [[170]], tree_layers = [[[170]]]\<rparr>
   \<and> generateMerkleProof \<lparr>tree_leaves = [[170]], tree_layers = [[[170]]]\<rparr> ''aa'' = []
   \<and> MerkleService_verifyProof crypto_createHash ''aa''
        (JArr (generateMerkleProof \<lparr>tree_leaves = [[170]], tree_layers = [[[170]]]\<rparr> ''aa''))
        (to_hex (getRoot \<lparr>tree_leaves = [[170]], tree_layers = [[[170]]]\<rparr>)) = Inr True"
proof -
  have b: "buildMerkleTree crypto_createHash [\<lparr>cert_studentId = ''s1'', cert_commitment = Some ''aa''\<rparr>]
      = Inr \<lparr>tree_leaves = [[170]], tree_layers = [[[170]]]\<rparr>"
    by (simp add: buildMerkleTree_def bind_err_def MerkleTree_new_createHash from_hex_aa
        del: from_hex.simps)
  show ?thesis
    using b verifyProof_of_generated_proof
      [of "[\<lparr>cert_studentId = ''s1'', cert_commitment = Some ''aa''\<rparr>,
            \<lparr>cert_studentId = ''s2'', cert_commitment = Some ''bb''\<rparr>]"
          "''aa''" "JObj [(''data'', JStr ''bb''), (''position'', JStr ''right'')]" "[]" "''cc''"
          "[\<lparr>cert_studentId = ''s1'', cert_commitment = Some ''aa''\<rparr>]"
          "\<lparr>tree_leaves = [[170]], tree_layers = [[[170]]]\<rparr>"]
    by auto
qed

text \<open>
  C2. The output \<open>isValid\<close> of the circuit the service proves with is not
  merkleValid AND gatePolicy. For every accepted witness of \<open>CertificateVerifier\<close> the
  output is the grade gate alone, OR(NOT requireAllPassed, AND(requireAllPassed,
  allPassed)) over the outputs of the grade checks: the value \<open>FinalValidation\<close> gives
  with \<open>merkleValid\<close> fixed to 1, where with \<open>merkleValid\<close> 0 it gives 0. The circuit
  has no root and no path among its signals and recomputes no Merkle path; the
  commitment hash of student id, salt and subjects is a second output and is the leaf of
  nothing.
\<close>

theorem CertificateVerifier_isValid_without_merkle:
  "CertificateVerifier poseidon nSubjects w = Some out \<Longrightarrow>
   \<exists>checks. gradeChecks w = Some checks
     \<and> isValid out
         = OR_gate (NOT_gate (requireAllPassed w))
             (AND_gate (requireAllPassed w) (allPassedSignal checks))
     \<and> isValid out = FinalValidation 1 (allPassedSignal checks) (requireAllPassed w)
     \<and> FinalValidation 0 (allPassedSignal checks) (requireAllPassed w) = 0
     \<and> commitment out = poseidon (studentId w # salt w # subjects w)"
  by (auto simp: CertificateVerifier_def FinalValidation_merkleValid Let_def
      split: if_splits option.splits)

theorem CertificateVerifier_isValid_without_merkle_witness:
  "main_component example_poseidon
     \<lparr>studentId = 1, subjects = [88, 92, 85, 90, 87], salt = 2,
      minPassingGrade = 40, requireAllPassed = 1\<rparr>
   = Some \<lparr>isValid = 1, commitment = example_poseidon [1, 2, 88, 92, 85, 90, 87]\<rparr>
   \<and> gradeChecks \<lparr>studentId = 1, subjects = [88, 92, 85, 90, 87], salt = 2,
      minPassingGrade = 40, requireAllPassed = 1\<rparr> = Some [1, 1, 1, 1, 1]
   \<and> FinalValidation 1 (allPassedSignal [1, 1, 1, 1, 1]) 1 = 1
   \<and> FinalValidation 0 (allPassedSignal [1, 1, 1, 1, 1]) 1 = 0"
proof -
  let ?w = "\<lparr>studentId = 1, subjects = [88, 92, 85, 90, 87], salt = 2,
      minPassingGrade = 40, requireAllPassed = 1\<rparr>"
  have checks: "gradeChecks ?w = Some [1, 1, 1, 1, 1]"
    by (simp add: gradeChecks_def GreaterEqThan_def LessThan_8 FIELD_P_def
        BN254_FIELD_MODULUS_def)
  have run: "CertificateVerifier example_poseidon 5 ?w
      = Some \<lparr>isValid = 1, commitment = example_poseidon [1, 2, 88, 92, 85, 90, 87]\<rparr>"
    using main_example by (simp add: main_component_def)
  show ?thesis
    using CertificateVerifier_isValid_without_merkle [OF run] checks main_example
    by auto
qed

text \<open>
  C3, as the spec states it: the commitment computation fails, before hashing, when a
  grade lies outside [0,100]. Neither \<open>hashStudentData\<close> nor \<open>calculateCommitment\<close>
  checks a grade: for a record with the grade 150 both return the digest of the text
  that holds 150.
\<close>

theorem commitment_out_of_range_counterexample:
  "(100 :: int) < 150
   \<and> hashStudentData example_sha256 show_int
        \<lparr>sd_studentId = ''STU001'', sd_subjects = [150, 92]\<rparr> ''a1b2''
      = Inr (digest_hex (example_sha256 ''STU001|a1b2|150|92''))
   \<and> calculateCommitment example_sha256 show_int
        \<lparr>ri_studentId = ''STU001'', ri_subjects = [150, 92], ri_salt = ''a1b2'',
         ri_minPassingGrade = 40, ri_requireAllPassed = True\<rparr>
      = Inr (digest_hex (example_sha256 ''STU001|a1b2|150|92''))"
  by (simp add: hashStudentData_def calculateCommitment_def show_int_150)

text \<open>
  C3, amended: the commitment computation validates no grade. For every record and
  salt, whatever the grades and however they are turned into text, \<open>hashStudentData\<close>
  and \<open>calculateCommitment\<close> return, and do not fail, the hexadecimal digest of the
  student id, the salt and the grades joined with \<open>|\<close>; a digest has 64 digits.
\<close>

theorem commitment_without_range_check:
  "hashStudentData sha256 toText studentData slt
     = Inr (digest_hex (sha256 (join ''|''
         ([sd_studentId studentData, slt] @ map toText (sd_subjects studentData)))))
   \<and> calculateCommitment sha256 toText input
     = Inr (digest_hex (sha256 (join ''|''
         ([ri_studentId input, ri_salt input] @ map toText (ri_subjects input)))))
   \<and> length (digest_hex (sha256 content)) = 64"
  by (simp add: hashStudentData_def calculateCommitment_def length_digest_hex)

text \<open>
  C4. \<open>ZKProofService.verifyProof\<close> fails closed. For every proof, every vector of
  public signals, every state of the key file and every behaviour of \<open>JSON.parse\<close> and
  of the verifier, it returns a boolean and no exception escapes; the boolean is true
  exactly when the key file exists, its content parses, the proof reformats and the
  verifier answers true. So it returns false when the verification key is missing, when
  \<open>JSON.parse\<close> throws on the key, when the proof is malformed (reformatting it throws),
  when the verifier throws (a wrong point encoding, a wrong number of public inputs) and
  when the verifier answers false.
\<close>

theorem ZKProofService_verifyProof_fails_closed:
  "ZKProofService_verifyProof JSON_parse groth16 fs prf publicSignals
     = Inr (\<exists>content vk fp. verification_key_json fs = Some content
              \<and> JSON_parse content = Inr vk
              \<and> formatProofFromSolidity prf = Inr fp
              \<and> groth16 vk publicSignals fp = Inr True)
   \<and> (verification_key_json fs = None
        \<longrightarrow> ZKProofService_verifyProof JSON_parse groth16 fs prf publicSignals = Inr False)
   \<and> (\<forall>content. verification_key_json fs = Some content \<and> isl (JSON_parse content)
        \<longrightarrow> ZKProofService_verifyProof JSON_parse groth16 fs prf publicSignals = Inr False)
   \<and> (isl (formatProofFromSolidity prf)
        \<longrightarrow> ZKProofService_verifyProof JSON_parse groth16 fs prf publicSignals = Inr False)
   \<and> (\<forall>content vk fp. verification_key_json fs = Some content \<and> JSON_parse content = Inr vk
          \<and> formatProofFromSolidity prf = Inr fp
        \<longrightarrow> ZKProofService_verifyProof JSON_parse groth16 fs prf publicSignals
            = Inr (case groth16 vk publicSignals fp of Inl e \<Rightarrow> False | Inr ok \<Rightarrow> ok))"
proof -
  have main: "ZKProofService_verifyProof JSON_parse groth16 fs prf publicSignals
     = Inr (\<exists>content vk fp. verification_key_json fs = Some content
              \<and> JSON_parse content = Inr vk
              \<and> formatProofFromSolidity prf = Inr fp
              \<and> groth16 vk publicSignals fp = Inr True)"
    by (auto simp: ZKProofService_verifyProof_def try_catch_def bind_err_def
        split: option.splits sum.splits)
  show ?thesis
  proof (intro conjI allI impI)
    show "ZKProofService_verifyProof JSON_parse groth16 fs prf publicSignals
     = Inr (\<exists>content vk fp. verification_key_json fs = Some content
              \<and> JSON_parse content = Inr vk
              \<and> formatProofFromSolidity prf = Inr fp
              \<and> groth16 vk publicSignals fp = Inr True)"
      by (rule main)
  next
    assume "verification_key_json fs = None"
    then show "ZKProofService_verifyProof JSON_parse groth16 fs prf publicSignals = Inr False"
      by (simp add: main)
  next
    fix content
    assume "verification_key_json fs = Some content \<and> isl (JSON_parse content)"
    then show "ZKProofService_verifyProof JSON_parse groth16 fs prf publicSignals = Inr False"
      by (auto simp: main)
  next
    assume "isl (formatProofFromSolidity prf)"
    then show "ZKProofService_verifyProof JSON_parse groth16 fs prf publicSignals = Inr False"
      by (auto simp: main)
  next
    fix content vk fp
    assume "verification_key_json fs = Some content \<and> JSON_parse content = Inr vk
          \<and> formatProofFromSolidity prf = Inr fp"
    then show "ZKProofService_verifyProof JSON_parse groth16 fs prf publicSignals
            = Inr (case groth16 vk publicSignals fp of Inl e \<Rightarrow> False | Inr ok \<Rightarrow> ok)"
      by (auto simp: main split: sum.splits)
  qed
qed

theorem ZKProofService_verifyProof_fails_closed_witness:
  "verification_key_json \<lparr>verification_key_json = Some ''{}''\<rparr> = Some ''{}''
   \<and> example_JSON_parse ''{}'' = Inr (JStr ''{}'')
   \<and> isl (formatProofFromSolidity (JObj [(''pi_a'', JArr [JStr ''11'', JStr ''12'', JStr ''1''])]))
   \<and> ZKProofService_verifyProof example_JSON_parse example_groth16
        \<lparr>verification_key_json = Some ''{}''\<rparr>
        (JObj [(''pi_a'', JArr [JStr ''11'', JStr ''12'', JStr ''1''])]) (JArr [JStr ''1''])
      = Inr False
   \<and> ZKProofService_verifyProof example_JSON_parse example_groth16
        \<lparr>verification_key_json = None\<rparr>
        (JObj [(''pi_a'', JArr [JStr ''11'', JStr ''12'', JStr ''1''])]) (JArr [JStr ''1''])
      = Inr False
   \<and> formatProofFromSolidity (JObj [(''a'', JArr [JStr ''11'', JStr ''12'']),
          (''b'', JArr [JArr [JStr ''22'', JStr ''21''], JArr [JStr ''24'', JStr ''23'']]),
          (''c'', JArr [JStr ''31'', JStr ''32''])])
      = Inr (JObj [(''pi_a'', JArr [JStr ''11'', JStr ''12'', JStr ''1'']),
          (''pi_b'', JArr [JArr [JStr ''21'', JStr ''22''], JArr [JStr ''23'', JStr ''24''],
                           JArr [JStr ''1'', JStr ''0'']]),
          (''pi_c'', JArr [JStr ''31'', JStr ''32'', JStr ''1'']),
          (''protocol'', JStr ''groth16'')])
   \<and> ZKProofService_verifyProof example_JSON_parse example_groth16
        \<lparr>verification_key_json = Some ''{}''\<rparr>
        (JObj [(''a'', JArr [JStr ''11'', JStr ''12'']),
          (''b'', JArr [JArr [JStr ''22'', JStr ''21''], JArr [JStr ''24'', JStr ''23'']]),
          (''c'', JArr [JStr ''31'', JStr ''32''])])
        (JArr [JStr ''1''])
      = Inr False
   \<and> ZKProofService_verifyProof example_JSON_parse example_groth16
        \<lparr>verification_key_json = Some ''{}''\<rparr>
        (JObj [(''a'', JArr [JStr ''11'', JStr ''12'']),
          (''b'', JArr [JArr [JStr ''22'', JStr ''21''], JArr [JStr ''24'', JStr ''23'']]),
          (''c'', JArr [JStr ''31'', JStr ''32''])])
        (JArr [JStr ''1'', JStr ''40'', JStr ''1''])
      = Inr True
   \<and> ZKProofService_verifyProof example_JSON_parse example_groth16
        \<lparr>verification_key_json = Some ''''\<rparr>
        (JObj [(''a'', JArr [JStr ''11'', JStr ''12'']),
          (''b'', JArr [JArr [JStr ''22'', JStr ''21''], JArr [JStr ''24'', JStr ''23'']]),
          (''c'', JArr [JStr ''31'', JStr ''32''])])
        (JArr [JStr ''1'', JStr ''40'', JStr ''1''])
      = Inr False"
proof -
  have key: "verification_key_json \<lparr>verification_key_json = Some ''{}''\<rparr> = Some ''{}''"
    by simp
  have nokey: "verification_key_json \<lparr>verification_key_json = None\<rparr> = None"
    by simp
  have parsed: "example_JSON_parse ''{}'' = Inr (JStr ''{}'')"
    by (simp add: example_JSON_parse_def)
  have malformed:
    "isl (formatProofFromSolidity (JObj [(''pi_a'', JArr [JStr ''11'', JStr ''12'', JStr ''1''])]))"
    by (simp add: formatProofFromSolidity_def coord_def coord2_def bind_err_def)
  have formatted: "formatProofFromSolidity (JObj [(''a'', JArr [JStr ''11'', JStr ''12'']),
          (''b'', JArr [JArr [JStr ''22'', JStr ''21''], JArr [JStr ''24'', JStr ''23'']]),
          (''c'', JArr [JStr ''31'', JStr ''32''])])
      = Inr (JObj [(''pi_a'', JArr [JStr ''11'', JStr ''12'', JStr ''1'']),
          (''pi_b'', JArr [JArr [JStr ''21'', JStr ''22''], JArr [JStr ''23'', JStr ''24''],
                           JArr [JStr ''1'', JStr ''0'']]),
          (''pi_c'', JArr [JStr ''31'', JStr ''32'', JStr ''1'']),
          (''protocol'', JStr ''groth16'')])"
    by (simp add: formatProofFromSolidity_def coord_def coord2_def bind_err_def)
  note closed = ZKProofService_verifyProof_fails_closed
    [of example_JSON_parse example_groth16 _ _ _, THEN conjunct2]
  have a: "ZKProofService_verifyProof example_JSON_parse example_groth16
        \<lparr>verification_key_json = Some ''{}''\<rparr>
        (JObj [(''pi_a'', JArr [JStr ''11'', JStr ''12'', JStr ''1''])]) (JArr [JStr ''1''])
      = Inr False"
    using closed [THEN conjunct2, THEN conjunct2, THEN conjunct1] malformed by blast
  have b: "ZKProofService_verifyProof example_JSON_parse example_groth16
        \<lparr>verification_key_json = None\<rparr>
        (JObj [(''pi_a'', JArr [JStr ''11'', JStr ''12'', JStr ''1''])]) (JArr [JStr ''1''])
      = Inr False"
    using closed [THEN conjunct1] nokey by blast
  note run = closed [THEN conjunct2, THEN conjunct2, THEN conjunct2, rule_format, OF conjI [OF key conjI [OF parsed formatted]]]
  have c: "ZKProofService_verifyProof example_JSON_parse example_groth16
        \<lparr>verification_key_json = Some ''{}''\<rparr>
        (JObj [(''a'', JArr [JStr ''11'', JStr ''12'']),
          (''b'', JArr [JArr [JStr ''22'', JStr ''21''], JArr [JStr ''24'', JStr ''23'']]),
          (''c'', JArr [JStr ''31'', JStr ''32''])])
        (JArr [JStr ''1''])
      = Inr False"
    using run [of "JArr [JStr ''1'']"] by (simp add: example_groth16_def)
  have d: "ZKProofService_verifyProof example_JSON_parse example_groth16
        \<lparr>verification_key_json = Some ''{}''\<rparr>
        (JObj [(''a'', JArr [JStr ''11'', JStr ''12'']),
          (''b'', JArr [JArr [JStr ''22'', JStr ''21''], JArr [JStr ''24'', JStr ''23'']]),
          (''c'', JArr [JStr ''31'', JStr ''32''])])
        (JArr [JStr ''1'', JStr ''40'', JStr ''1''])
      = Inr True"
    using run [of "JArr [JStr ''1'', JStr ''40'', JStr ''1'']"] by (simp add: example_groth16_def)
  have unparsed: "verification_key_json \<lparr>verification_key_json = Some ''''\<rparr> = Some ''''
      \<and> isl (example_JSON_parse '''')"
    by (simp add: example_JSON_parse_def)
  have e: "ZKProofService_verifyProof example_JSON_parse example_groth16
        \<lparr>verification_key_json = Some ''''\<rparr>
        (JObj [(''a'', JArr [JStr ''11'', JStr ''12'']),
          (''b'', JArr [JArr [JStr ''22'', JStr ''21''], JArr [JStr ''24'', JStr ''23'']]),
          (''c'', JArr [JStr ''31'', JStr ''32''])])
        (JArr [JStr ''1'', JStr ''40'', JStr ''1''])
      = Inr False"
    using closed [THEN conjunct2, THEN conjunct1, rule_format, OF unparsed] .
  show ?thesis
    using key parsed malformed a b formatted c d e by blast
qed

text \<open>
  C5. \<open>MerkleService.importTreeData\<close> with the hash function of the source. Without an
  array of leaves it raises the invalid-data error; with two or more leaves the rebuild
  throws a TypeError before any root is compared, whether or not the stored root is the
  right one; with at most one leaf nothing is hashed and it raises the root mismatch
  exactly when the leaf (the empty buffer for no leaf) differs from the stored root.
  Every tree \<open>buildMerkleTree\<close> returns has a single leaf, and its export imports to the
  same tree.
\<close>

theorem importTreeData_rebuild:
  "(td_leaves treeData = None \<longrightarrow> importTreeData crypto_createHash treeData = Inl InvalidTreeData)
   \<and> (\<forall>leafHexes. td_leaves treeData = Some leafHexes \<and> 2 \<le> length leafHexes
        \<longrightarrow> importTreeData crypto_createHash treeData = Inl TypeError)
   \<and> (\<forall>leafHexes. td_leaves treeData = Some leafHexes \<and> length leafHexes \<le> 1
        \<longrightarrow> importTreeData crypto_createHash treeData
            = (if to_hex (getRoot \<lparr>tree_leaves = map from_hex leafHexes,
                                    tree_layers = [map from_hex leafHexes]\<rparr>)
                  \<noteq> td_merkleRoot treeData
               then Inl RootMismatch
               else Inr \<lparr>tree_leaves = map from_hex leafHexes,
                         tree_layers = [map from_hex leafHexes]\<rparr>))
   \<and> (buildMerkleTree crypto_createHash certs = Inr t
        \<longrightarrow> length (tree_leaves t) = 1
            \<and> (\<exists>exported. exportTreeData now t certs = Inr exported
                  \<and> importTreeData crypto_createHash exported = Inr t))"
proof (intro conjI allI impI)
  assume "td_leaves treeData = None"
  then show "importTreeData crypto_createHash treeData = Inl InvalidTreeData"
    by (simp add: importTreeData_def)
next
  fix leafHexes
  assume "td_leaves treeData = Some leafHexes \<and> 2 \<le> length leafHexes"
  then show "importTreeData crypto_createHash treeData = Inl TypeError"
    by (simp add: importTreeData_def bind_err_def MerkleTree_new_createHash)
next
  fix leafHexes
  assume "td_leaves treeData = Some leafHexes \<and> length leafHexes \<le> 1"
  then show "importTreeData crypto_createHash treeData
            = (if to_hex (getRoot \<lparr>tree_leaves = map from_hex leafHexes,
                                    tree_layers = [map from_hex leafHexes]\<rparr>)
                  \<noteq> td_merkleRoot treeData
               then Inl RootMismatch
               else Inr \<lparr>tree_leaves = map from_hex leafHexes,
                         tree_layers = [map from_hex leafHexes]\<rparr>)"
    by (simp add: importTreeData_def bind_err_def MerkleTree_new_createHash Let_def)
next
  assume b: "buildMerkleTree crypto_createHash certs = Inr t"
  then obtain cert c where certs: "certs = [cert]" "cert_commitment cert = Some c"
    and t: "t = \<lparr>tree_leaves = [from_hex c], tree_layers = [[from_hex c]]\<rparr>"
    using buildMerkleTree_Inr by blast
  show "length (tree_leaves t) = 1" by (simp add: t)
  have "importTreeData crypto_createHash
          \<lparr>td_merkleRoot = to_hex (from_hex c),
            td_leaves = Some [to_hex (from_hex c)],
            td_certificates = [\<lparr>ex_studentId = cert_studentId cert,
                                ex_commitment = Some c, ex_proof = []\<rparr>],
            td_metadata = \<lparr>totalCertificates = 1, createdAt = now, version = ''1.0.0''\<rparr>\<rparr> = Inr t"
    by (simp add: importTreeData_def bind_err_def MerkleTree_new_createHash Let_def t
        one_leaf_tree from_hex_to_hex)
  with exportTreeData_one_leaf [OF certs(2), of now] certs t
  show "\<exists>exported. exportTreeData now t certs = Inr exported
                  \<and> importTreeData crypto_createHash exported = Inr t"
    by simp
qed

theorem importTreeData_rebuild_witness:
  "importTreeData crypto_createHash
     \<lparr>td_merkleRoot = ''0266'', td_leaves = Some [''aa'', ''bb''], td_certificates = [],
      td_metadata = \<lparr>totalCertificates = 2, createdAt = ''2024'', version = ''1.0.0''\<rparr>\<rparr>
     = Inl TypeError
   \<and> importTreeData (\<lambda>b. Inr (example_hash b))
     \<lparr>td_merkleRoot = ''0266'', td_leaves = Some [''aa'', ''bb''], td_certificates = [],
      td_metadata = \<lparr>totalCertificates = 2, createdAt = ''2024'', version = ''1.0.0''\<rparr>\<rparr>
     = Inr \<lparr>tree_leaves = [[170], [187]], tree_layers = [[[170], [187]], [[2, 102]]]\<rparr>
   \<and> importTreeData crypto_createHash
     \<lparr>td_merkleRoot = ''aa'', td_leaves = None, td_certificates = [],
      td_metadata = \<lparr>totalCertificates = 1, createdAt = ''2024'', version = ''1.0.0''\<rparr>\<rparr>
     = Inl InvalidTreeData
   \<and> importTreeData crypto_createHash
     \<lparr>td_merkleRoot = ''aa'', td_leaves = Some [''aa''], td_certificates = [],
      td_metadata = \<lparr>totalCertificates = 1, createdAt = ''2024'', version = ''1.0.0''\<rparr>\<rparr>
     = Inr \<lparr>tree_leaves = [[170]], tree_layers = [[[170]]]\<rparr>
   \<and> importTreeData crypto_createHash
     \<lparr>td_merkleRoot = ''bb'', td_leaves = Some [''aa''], td_certificates = [],
      td_metadata = \<lparr>totalCertificates = 1, createdAt = ''2024'', version = ''1.0.0''\<rparr>\<rparr>
     = Inl RootMismatch"
proof -
  let ?m = "\<lparr>totalCertificates = 1, createdAt = ''2024'', version = ''1.0.0''\<rparr>"
  have two: "importTreeData (\<lambda>b. Inr (example_hash b))
     \<lparr>td_merkleRoot = ''0266'', td_leaves = Some [''aa'', ''bb''], td_certificates = [],
      td_metadata = \<lparr>totalCertificates = 2, createdAt = ''2024'', version = ''1.0.0''\<rparr>\<rparr>
     = Inr \<lparr>tree_leaves = [[170], [187]], tree_layers = [[[170], [187]], [[2, 102]]]\<rparr>"
    by (simp add: importTreeData_def bind_err_def MerkleTree_new_def build_layers_2 from_hex_aa
        getRoot_def example_hash_aa_bb to_hex_aa Let_def
        del: from_hex.simps to_hex.simps)
  show ?thesis
    using two
      importTreeData_rebuild [of "\<lparr>td_merkleRoot = ''0266'', td_leaves = Some [''aa'', ''bb''],
         td_certificates = [],
         td_metadata = \<lparr>totalCertificates = 2, createdAt = ''2024'', version = ''1.0.0''\<rparr>\<rparr>"
         "[]" "\<lparr>tree_leaves = [], tree_layers = []\<rparr>" "''2024''"]
      importTreeData_rebuild [of "\<lparr>td_merkleRoot = ''aa'', td_leaves = None,
         td_certificates = [], td_metadata = ?m\<rparr>"
         "[]" "\<lparr>tree_leaves = [], tree_layers = []\<rparr>" "''2024''"]
      importTreeData_rebuild [of "\<lparr>td_merkleRoot = ''aa'', td_leaves = Some [''aa''],
         td_certificates = [], td_metadata = ?m\<rparr>"
         "[]" "\<lparr>tree_leaves = [], tree_layers = []\<rparr>" "''2024''"]
      importTreeData_rebuild [of "\<lparr>td_merkleRoot = ''bb'', td_leaves = Some [''aa''],
         td_certificates = [], td_metadata = ?m\<rparr>"
         "[]" "\<lparr>tree_leaves = [], tree_layers = []\<rparr>" "''2024''"]
    by (simp add: from_hex_aa to_hex_aa one_leaf_tree del: from_hex.simps to_hex.simps)
qed




text \<open>
  C7. The length of a generated proof is not the depth of the tree for three leaves.
  \<open>buildMerkleTree\<close> throws a TypeError for every three certificates with commitments,
  so the service builds no tree of three leaves; every tree it returns has depth 0 and
  only empty proofs. The library itself, given a hash function that returns a digest,
  builds three levels from \<open>[h1, h2, h3]\<close>, depth 2, and its proof for \<open>h3\<close> has
  length 1: the unpaired last node of the odd level has no sibling to push, and the
  proof holds only the node of the pair \<open>h1, h2\<close>.
\<close>

theorem proof_length_three_leaves:
  "(length certs = 3 \<and> (\<forall>cert\<in>set certs. \<exists>c. cert_commitment cert = Some c \<and> c \<noteq> [])
      \<longrightarrow> buildMerkleTree crypto_createHash certs = Inl TypeError)
   \<and> (buildMerkleTree crypto_createHash built = Inr t
      \<longrightarrow> treeDepth (getTreeStats t) = 0 \<and> generateMerkleProof t c = [])
   \<and> (\<exists>t3. MerkleTree_new (\<lambda>b. Inr (h b)) [from_hex c1, from_hex c2, from_hex c3] = Inr t3
           \<and> treeDepth (getTreeStats t3) = 2
           \<and> length (generateMerkleProof t3 c3) = 1)"
proof (intro conjI impI)
  assume "length certs = 3 \<and> (\<forall>cert\<in>set certs. \<exists>c. cert_commitment cert = Some c \<and> c \<noteq> [])"
  then show "buildMerkleTree crypto_createHash certs = Inl TypeError"
    by (intro buildMerkleTree_throws) auto
next
  assume "buildMerkleTree crypto_createHash built = Inr t"
  then obtain cert c0 where t: "t = \<lparr>tree_leaves = [from_hex c0], tree_layers = [[from_hex c0]]\<rparr>"
    using buildMerkleTree_Inr by blast
  show "treeDepth (getTreeStats t) = 0" by (simp add: t one_leaf_tree)
  show "generateMerkleProof t c = []"
    by (simp add: generateMerkleProof_def t one_leaf_tree)
next
  show "\<exists>t3. MerkleTree_new (\<lambda>b. Inr (h b)) [from_hex c1, from_hex c2, from_hex c3] = Inr t3
           \<and> treeDepth (getTreeStats t3) = 2
           \<and> length (generateMerkleProof t3 c3) = 1"
    by (simp add: MerkleTree_new_def build_layers_3 getTreeStats_def getLayers_def Let_def
        generateMerkleProof_def getProof_def last_index_of_3 del: last_index_of.simps)
qed

theorem proof_length_three_leaves_witness:
  "buildMerkleTree crypto_createHash
      [\<lparr>cert_studentId = ''s1'', cert_commitment = Some ''aa''\<rparr>,
       \<lparr>cert_studentId = ''s2'', cert_commitment = Some ''bb''\<rparr>,
       \<lparr>cert_studentId = ''s3'', cert_commitment = Some ''cc''\<rparr>] = Inl TypeError
   \<and> buildMerkleTree crypto_createHash [\<lparr>cert_studentId = ''s3'', cert_commitment = Some ''cc''\<rparr>]
      = Inr \<lparr>tree_leaves = [[204]], tree_layers = [[[204]]]\<rparr>
   \<and> treeDepth (getTreeStats \<lparr>tree_leaves = [[204]], tree_layers = [[[204]]]\<rparr>) = 0
   \<and> generateMerkleProof \<lparr>tree_leaves = [[204]], tree_layers = [[[204]]]\<rparr> ''cc'' = []"
proof -
  have b: "buildMerkleTree crypto_createHash [\<lparr>cert_studentId = ''s3'', cert_commitment = Some ''cc''\<rparr>]
      = Inr \<lparr>tree_leaves = [[204]], tree_layers = [[[204]]]\<rparr>"
    by (simp add: buildMerkleTree_def bind_err_def MerkleTree_new_createHash from_hex_aa
        del: from_hex.simps)
  show ?thesis
    using b proof_length_three_leaves
      [of "[\<lparr>cert_studentId = ''s1'', cert_commitment = Some ''aa''\<rparr>,
            \<lparr>cert_studentId = ''s2'', cert_commitment = Some ''bb''\<rparr>,
            \<lparr>cert_studentId = ''s3'', cert_commitment = Some ''cc''\<rparr>]"
          "[\<lparr>cert_studentId = ''s3'', cert_commitment = Some ''cc''\<rparr>]"
          "\<lparr>tree_leaves = [[204]], tree_layers = [[[204]]]\<rparr>" "''cc''"]
    by auto
qed

text \<open>
  C8. For every input string, \<open>stringToFieldElement\<close> returns (and does not throw) the
  decimal text of the digest of the string, read as a 256-bit number, reduced modulo the
  BN254 scalar field modulus
  21888242871839275222246405745257275088548364400416034343698204186575808495617:
  the text is \<open>to_decimal n\<close> for that \<open>n\<close>, which is below the modulus, and reading the
  text back as a decimal numeral gives \<open>n\<close>. \<open>prepareCircuitInputs\<close> returns circuit
  inputs whose \<open>studentId\<close> and \<open>salt\<close> are these texts for the student id and the salt
  of the raw input.
\<close>

theorem stringToFieldElement_in_field:
  "(\<exists>n. stringToFieldElement sha256 str = Inr (to_decimal n)
      \<and> n = unat (sha256 str)
            mod 21888242871839275222246405745257275088548364400416034343698204186575808495617
      \<and> of_decimal (to_decimal n) = n
      \<and> n < 21888242871839275222246405745257275088548364400416034343698204186575808495617)
   \<and> (\<exists>prepared. prepareCircuitInputs sha256 toText rawInput = Inr prepared
      \<and> Inr (pi_studentId prepared) = stringToFieldElement sha256 (ri_studentId rawInput)
      \<and> Inr (pi_salt prepared) = stringToFieldElement sha256 (ri_salt rawInput)
      \<and> of_decimal (pi_studentId prepared) = unat (sha256 (ri_studentId rawInput))
            mod 21888242871839275222246405745257275088548364400416034343698204186575808495617
      \<and> of_decimal (pi_salt prepared) = unat (sha256 (ri_salt rawInput))
            mod 21888242871839275222246405745257275088548364400416034343698204186575808495617)"
proof (intro conjI)
  show "\<exists>n. stringToFieldElement sha256 str = Inr (to_decimal n)
      \<and> n = unat (sha256 str)
            mod 21888242871839275222246405745257275088548364400416034343698204186575808495617
      \<and> of_decimal (to_decimal n) = n
      \<and> n < 21888242871839275222246405745257275088548364400416034343698204186575808495617"
    by (simp add: stringToFieldElement_eq of_decimal_to_decimal BN254_FIELD_MODULUS_def)
next
  show "\<exists>prepared. prepareCircuitInputs sha256 toText rawInput = Inr prepared
      \<and> Inr (pi_studentId prepared) = stringToFieldElement sha256 (ri_studentId rawInput)
      \<and> Inr (pi_salt prepared) = stringToFieldElement sha256 (ri_salt rawInput)
      \<and> of_decimal (pi_studentId prepared) = unat (sha256 (ri_studentId rawInput))
            mod 21888242871839275222246405745257275088548364400416034343698204186575808495617
      \<and> of_decimal (pi_salt prepared) = unat (sha256 (ri_salt rawInput))
            mod 21888242871839275222246405745257275088548364400416034343698204186575808495617"
    by (simp add: prepareCircuitInputs_def calculateCommitment_def bind_err_def
        stringToFieldElement_eq of_decimal_to_decimal BN254_FIELD_MODULUS_def)
qed

text \<open>
  C9. \<open>MerkleService.verifyProof\<close> is total: for every commitment string, every value
  passed as the proof (an array of elements of any shape, or no array at all), every
  root string and every hash, it returns a boolean; no exception reaches the caller.
\<close>

theorem MerkleService_verifyProof_total:
  "\<exists>b. MerkleService_verifyProof H commitmentHash pf merkleRoot = Inr b"
  unfolding MerkleService_verifyProof_def by (rule try_catch_False)

text \<open>
  C10. Converting a snarkjs proof to the Solidity format (by \<open>formatProofForSolidity\<close>
  or by \<open>formatProofForContract\<close>, which give the same object) and back with
  \<open>formatProofFromSolidity\<close> succeeds and keeps the coordinates: the first two
  coordinates of \<open>pi_a\<close> and of \<open>pi_c\<close> and the first two rows of \<open>pi_b\<close> of the
  result are those of the proof (the swap inside each row, applied twice, cancels).
\<close>

theorem format_roundtrip:
  assumes "is_snarkjs_proof p"
  shows "\<exists>s q. formatProofForSolidity p = Inr s \<and> formatProofForContract p = Inr s
           \<and> formatProofFromSolidity s = Inr q
           \<and> coord q ''pi_a'' 0 = coord p ''pi_a'' 0 \<and> coord q ''pi_a'' 1 = coord p ''pi_a'' 1
           \<and> coord q ''pi_c'' 0 = coord p ''pi_c'' 0 \<and> coord q ''pi_c'' 1 = coord p ''pi_c'' 1
           \<and> coord q ''pi_b'' 0 = coord p ''pi_b'' 0 \<and> coord q ''pi_b'' 1 = coord p ''pi_b'' 1"
  using assms
  by (elim is_snarkjs_proofE)
     (simp add: formatProofForSolidity_def formatProofForContract_def formatProofFromSolidity_def
        coord_def coord2_def bind_err_def)

theorem format_roundtrip_witness:
  "is_snarkjs_proof (JObj [(''pi_a'', JArr [JStr ''11'', JStr ''12'', JStr ''1'']),
       (''pi_b'', JArr [JArr [JStr ''21'', JStr ''22''], JArr [JStr ''23'', JStr ''24''],
                        JArr [JStr ''1'', JStr ''0'']]),
       (''pi_c'', JArr [JStr ''31'', JStr ''32'', JStr ''1'']),
       (''protocol'', JStr ''groth16'')])
   \<and> formatProofForSolidity (JObj [(''pi_a'', JArr [JStr ''11'', JStr ''12'', JStr ''1'']),
       (''pi_b'', JArr [JArr [JStr ''21'', JStr ''22''], JArr [JStr ''23'', JStr ''24''],
                        JArr [JStr ''1'', JStr ''0'']]),
       (''pi_c'', JArr [JStr ''31'', JStr ''32'', JStr ''1'']),
       (''protocol'', JStr ''groth16'')])
     = Inr (JObj [(''a'', JArr [JStr ''11'', JStr ''12'']),
                  (''b'', JArr [JArr [JStr ''22'', JStr ''21''], JArr [JStr ''24'', JStr ''23'']]),
                  (''c'', JArr [JStr ''31'', JStr ''32''])])
   \<and> formatProofFromSolidity (JObj [(''a'', JArr [JStr ''11'', JStr ''12'']),
                  (''b'', JArr [JArr [JStr ''22'', JStr ''21''], JArr [JStr ''24'', JStr ''23'']]),
                  (''c'', JArr [JStr ''31'', JStr ''32''])])
     = Inr (JObj [(''pi_a'', JArr [JStr ''11'', JStr ''12'', JStr ''1'']),
       (''pi_b'', JArr [JArr [JStr ''21'', JStr ''22''], JArr [JStr ''23'', JStr ''24''],
                        JArr [JStr ''1'', JStr ''0'']]),
       (''pi_c'', JArr [JStr ''31'', JStr ''32'', JStr ''1'']),
       (''protocol'', JStr ''groth16'')])"
proof -
  have shape: "is_snarkjs_proof (JObj [(''pi_a'', JArr [JStr ''11'', JStr ''12'', JStr ''1'']),
       (''pi_b'', JArr [JArr [JStr ''21'', JStr ''22''], JArr [JStr ''23'', JStr ''24''],
                        JArr [JStr ''1'', JStr ''0'']]),
       (''pi_c'', JArr [JStr ''31'', JStr ''32'', JStr ''1'']),
       (''protocol'', JStr ''groth16'')])"
    by simp
  show ?thesis
    using shape format_roundtrip [OF shape]
    by (simp add: formatProofForSolidity_def formatProofFromSolidity_def
        coord_def coord2_def bind_err_def)
qed


text \<open>
  The main component on the scenario of the documentation: subjects 88, 92, 85, 90, 87.
  With \<open>requireAllPassed = 1\<close> the threshold 40 gives \<open>isValid = 1\<close> and the threshold 90
  gives 0; with \<open>requireAllPassed = 0\<close> the threshold 90 gives 1; a subject of 101 has no
  accepted witness.
\<close>

theorem main_component_scenario:
  "main_component example_poseidon
     \<lparr>studentId = 1, subjects = [88, 92, 85, 90, 87], salt = 2,
      minPassingGrade = 40, requireAllPassed = 1\<rparr>
   = Some \<lparr>isValid = 1, commitment = example_poseidon [1, 2, 88, 92, 85, 90, 87]\<rparr>
   \<and> main_component example_poseidon
     \<lparr>studentId = 1, subjects = [88, 92, 85, 90, 87], salt = 2,
      minPassingGrade = 90, requireAllPassed = 1\<rparr>
   = Some \<lparr>isValid = 0, commitment = example_poseidon [1, 2, 88, 92, 85, 90, 87]\<rparr>
   \<and> main_component example_poseidon
     \<lparr>studentId = 1, subjects = [88, 92, 85, 90, 87], salt = 2,
      minPassingGrade = 90, requireAllPassed = 0\<rparr>
   = Some \<lparr>isValid = 1, commitment = example_poseidon [1, 2, 88, 92, 85, 90, 87]\<rparr>
   \<and> main_component example_poseidon
     \<lparr>studentId = 1, subjects = [88, 92, 101, 90, 87], salt = 2,
      minPassingGrade = 40, requireAllPassed = 1\<rparr>
   = None"
  by (simp add: main_component_def CertificateVerifier_def gradeChecks_def rangeChecks_def
      GreaterEqThan_def LessEqThan_def LessThan_8 AND_gate_def OR_gate_def NOT_gate_def
      FIELD_P_def BN254_FIELD_MODULUS_def)

end
